theory Spec2Isabelle
  imports Complex_Main
begin

section \<open>Python results\<close>

text \<open>
  The notebook is Python over PyTorch and scikit-learn.  An exception that leaves a function
  is the left summand of its result.  Numbers of type float are modelled by the reals.
\<close>

datatype py_error =
    ZeroDivisionError | KeyError string | TypeError | RuntimeError | ValueError
  | FileNotFoundError | IsADirectoryError | NotADirectoryError | FileExistsError

definition thn :: "py_error + 'a \<Rightarrow> ('a \<Rightarrow> py_error + 'b) \<Rightarrow> py_error + 'b" where
  "thn r f = (case r of Inl e \<Rightarrow> Inl e | Inr v \<Rightarrow> f v)"

section \<open>Training and evaluation loops\<close>

text \<open>
  A data loader is the list of its batches; a batch is the pair \<open>(imgs, labels)\<close>.
  \<open>CustomDataset\<close> enumerates the two classes \<open>['benign', 'malignant']\<close>, so a label is 0.0 or
  1.0: it is a \<open>bool\<close> here, \<open>True\<close> for malignant.  The network, the loss and the optimiser
  come from the framework: \<open>net m training imgs\<close> is \<open>model(imgs)\<close> with parameters \<open>m\<close> in training
  or evaluation mode (one output per row, shape B x 1), \<open>criterion outputs labels\<close> is the scalar
  loss, and \<open>opt_step\<close> is \<open>zero_grad\<close>, \<open>backward\<close> and \<open>step\<close> together, returning the updated
  parameters and optimiser state.
\<close>

record ('m, 'o, 'i) torch_env =
  net :: "'m \<Rightarrow> bool \<Rightarrow> 'i list \<Rightarrow> py_error + real list"
  criterion :: "real list \<Rightarrow> bool list \<Rightarrow> py_error + real"
  opt_step :: "'m \<Rightarrow> 'o \<Rightarrow> 'i list \<Rightarrow> bool list \<Rightarrow> 'm \<times> 'o"

type_synonym 'i batch = "'i list \<times> bool list"

text \<open>\<open>(outputs > 0.5).float()\<close>: \<open>True\<close> stands for 1.0.\<close>

definition threshold :: "real list \<Rightarrow> bool list" where
  "threshold outputs = map (\<lambda>p. p > 0.5) outputs"

text \<open>
  \<open>(preds == labels).sum().item()\<close> on two tensors of shapes B' x 1 and B x 1: elementwise when
  the row counts agree, broadcast when one of them is 1, an error otherwise.
\<close>

definition count_equal :: "bool list \<Rightarrow> bool list \<Rightarrow> py_error + nat" where
  "count_equal preds labels =
     (if length preds = length labels
        then Inr (length (filter (\<lambda>(p, l). p = l) (zip preds labels)))
      else if length preds = 1
        then Inr (length (filter (\<lambda>l. hd preds = l) labels))
      else if length labels = 1
        then Inr (length (filter (\<lambda>p. p = hd labels) preds))
      else Inl RuntimeError)"

fun train_loop ::
  "('m, 'o, 'i) torch_env \<Rightarrow> 'm \<Rightarrow> 'o \<Rightarrow> 'i batch list \<Rightarrow> real \<Rightarrow> py_error + ('m \<times> 'o \<times> real)"
where
  "train_loop E m opt [] running_loss = Inr (m, opt, running_loss)"
| "train_loop E m opt ((imgs, labels) # rest) running_loss =
     thn (net E m True imgs) (\<lambda>outputs.
     thn (criterion E outputs labels) (\<lambda>loss.
       case opt_step E m opt imgs labels of
         (m', opt') \<Rightarrow> train_loop E m' opt' rest (running_loss + loss)))"

definition train ::
  "('m, 'o, 'i) torch_env \<Rightarrow> 'm \<Rightarrow> 'o \<Rightarrow> 'i batch list \<Rightarrow> py_error + ('m \<times> 'o \<times> real)"
where
  "train E m opt loader =
     thn (train_loop E m opt loader 0) (\<lambda>(m', opt', running_loss).
       if length loader = 0 then Inl ZeroDivisionError
       else Inr (m', opt', running_loss / real (length loader)))"

fun evaluate_loop ::
  "('m, 'o, 'i) torch_env \<Rightarrow> 'm \<Rightarrow> 'i batch list \<Rightarrow> nat \<times> nat \<times> real \<Rightarrow> py_error + (nat \<times> nat \<times> real)"
where
  "evaluate_loop E m [] acc = Inr acc"
| "evaluate_loop E m ((imgs, labels) # rest) (total_n, correct_n, running_loss) =
     thn (net E m False imgs) (\<lambda>outputs.
     thn (criterion E outputs labels) (\<lambda>loss.
     thn (count_equal (threshold outputs) labels) (\<lambda>k.
       evaluate_loop E m rest (total_n + length labels, correct_n + k, running_loss + loss))))"

definition evaluate ::
  "('m, 'o, 'i) torch_env \<Rightarrow> 'm \<Rightarrow> 'i batch list \<Rightarrow> py_error + (real \<times> real)"
where
  "evaluate E m loader =
     thn (evaluate_loop E m loader (0, 0, 0)) (\<lambda>(total_n, correct_n, running_loss).
       if total_n = 0 then Inl ZeroDivisionError
       else if length loader = 0 then Inl ZeroDivisionError
       else Inr (running_loss / real (length loader), real correct_n / real total_n))"

text \<open>
  What the evaluation loop is expected to compute, over the whole loader: the number of samples, the
  number of samples whose thresholded output equals the label, and the sum of the batch losses.
  \<open>batch_ok\<close> says that a batch is not empty, that the network returns one output per label, and
  that the loss is computed.
\<close>

definition n_samples :: "'i batch list \<Rightarrow> nat" where
  "n_samples loader = (\<Sum>(imgs, labels)\<leftarrow>loader. length labels)"

definition eval_outputs :: "('m, 'o, 'i) torch_env \<Rightarrow> 'm \<Rightarrow> 'i list \<Rightarrow> real list" where
  "eval_outputs E m imgs = (case net E m False imgs of Inl e \<Rightarrow> [] | Inr outputs \<Rightarrow> outputs)"

definition batch_correct :: "real list \<Rightarrow> bool list \<Rightarrow> nat" where
  "batch_correct outputs labels =
     length (filter (\<lambda>(p, l). (p > 0.5) = l) (zip outputs labels))"

definition n_correct :: "('m, 'o, 'i) torch_env \<Rightarrow> 'm \<Rightarrow> 'i batch list \<Rightarrow> nat" where
  "n_correct E m loader =
     (\<Sum>(imgs, labels)\<leftarrow>loader. batch_correct (eval_outputs E m imgs) labels)"

definition loss_sum :: "('m, 'o, 'i) torch_env \<Rightarrow> 'm \<Rightarrow> 'i batch list \<Rightarrow> real" where
  "loss_sum E m loader =
     (\<Sum>(imgs, labels)\<leftarrow>loader.
        case criterion E (eval_outputs E m imgs) labels of Inl e \<Rightarrow> 0 | Inr loss \<Rightarrow> loss)"

definition batch_ok :: "('m, 'o, 'i) torch_env \<Rightarrow> 'm \<Rightarrow> 'i batch \<Rightarrow> bool" where
  "batch_ok E m b =
     (case b of (imgs, labels) \<Rightarrow>
        labels \<noteq> [] \<and>
        (case net E m False imgs of
           Inl e \<Rightarrow> False
         | Inr outputs \<Rightarrow> length outputs = length labels
             \<and> (case criterion E outputs labels of Inl e \<Rightarrow> False | Inr loss \<Rightarrow> True)))"

definition all_match :: "('m, 'o, 'i) torch_env \<Rightarrow> 'm \<Rightarrow> 'i batch list \<Rightarrow> bool" where
  "all_match E m loader =
     list_all (\<lambda>(imgs, labels). threshold (eval_outputs E m imgs) = labels) loader"

definition all_inverse :: "('m, 'o, 'i) torch_env \<Rightarrow> 'm \<Rightarrow> 'i batch list \<Rightarrow> bool" where
  "all_inverse E m loader =
     list_all (\<lambda>(imgs, labels). threshold (eval_outputs E m imgs) = map Not labels) loader"

section \<open>Checkpoints and the resume cell\<close>

text \<open>
  \<open>torch.save\<close> writes either a checkpoint dictionary or a bare \<open>state_dict\<close>.  The file system
  is a map from paths to what is there, a directory or a file written by \<open>torch.save\<close>; what the
  cell prints and saves is also kept, in order, as a list of events.
\<close>

datatype ('m, 'o) pyval = PInt int | PFloat real | PModelState 'm | POptState 'o

datatype ('m, 'o) saved = SavedDict "string \<rightharpoonup> ('m, 'o) pyval" | SavedState 'm

datatype ('m, 'o) node = Directory | File "('m, 'o) saved"

datatype ('m, 'o) event =
    Print_Resumed "('m, 'o) pyval"
  | Print_Fresh
  | Print_Epoch int int
  | Print_Summary int real real real
  | Print_Best int real
  | Saved string "('m, 'o) saved"

record ('m, 'o) session =
  model :: 'm
  optimizer :: 'o
  files :: "string \<rightharpoonup> ('m, 'o) node"
  events :: "('m, 'o) event list"

definition print_ev :: "('m, 'o) event \<Rightarrow> ('m, 'o) session \<Rightarrow> ('m, 'o) session" where
  "print_ev ev s = s\<lparr>events := events s @ [ev]\<rparr>"

text \<open>\<open>os.path.dirname\<close>, and \<open>os.makedirs(path, exist_ok=True)\<close> for a path of one component.\<close>

definition dirname :: "string \<Rightarrow> string" where
  "dirname path =
     (if CHR ''/'' \<in> set path
      then rev (tl (dropWhile (\<lambda>c. c \<noteq> CHR ''/'') (rev path)))
      else [])"

definition makedirs :: "string \<Rightarrow> ('m, 'o) session \<Rightarrow> py_error + ('m, 'o) session" where
  "makedirs path s =
     (case files s path of
        None \<Rightarrow> Inr (s\<lparr>files := (files s)(path \<mapsto> Directory)\<rparr>)
      | Some Directory \<Rightarrow> Inr s
      | Some (File obj) \<Rightarrow> Inl FileExistsError)"

text \<open>
  \<open>torch.save(obj, path)\<close> opens the path for writing: the path must not be a directory and its
  parent, unless it is the working directory, must be one.  \<open>torch.load(path)\<close> opens it for
  reading.
\<close>

definition torch_save ::
  "('m, 'o) saved \<Rightarrow> string \<Rightarrow> ('m, 'o) session \<Rightarrow> py_error + ('m, 'o) session"
where
  "torch_save obj path s =
     (if files s path = Some Directory then Inl IsADirectoryError
      else if dirname path \<noteq> [] \<and> files s (dirname path) = None then Inl FileNotFoundError
      else if dirname path \<noteq> [] \<and> files s (dirname path) \<noteq> Some Directory
        then Inl NotADirectoryError
      else Inr (s\<lparr>files := (files s)(path \<mapsto> File obj),
                   events := events s @ [Saved path obj]\<rparr>))"

definition torch_load :: "(string \<rightharpoonup> ('m, 'o) node) \<Rightarrow> string \<Rightarrow> py_error + ('m, 'o) saved" where
  "torch_load fs path =
     (case fs path of
        None \<Rightarrow> Inl FileNotFoundError
      | Some Directory \<Rightarrow> Inl IsADirectoryError
      | Some (File obj) \<Rightarrow> Inr obj)"

text \<open>Decimal rendering of an integer inside an f-string.\<close>

fun str_nat :: "nat \<Rightarrow> string" where
  "str_nat n = (if n < 10 then [''0123456789'' ! n]
                else str_nat (n div 10) @ [''0123456789'' ! (n mod 10)])"

declare str_nat.simps [simp del]

definition str_int :: "int \<Rightarrow> string" where
  "str_int i = (if i < 0 then CHR ''-'' # str_nat (nat (- i)) else str_nat (nat i))"

definition save_dir :: string where
  "save_dir = ''saved_models''"

definition epoch_path :: "int \<Rightarrow> string" where
  "epoch_path n = save_dir @ ''/breastnetpp_epoch_'' @ str_int n @ ''.pth''"

definition best_path :: string where
  "best_path = save_dir @ ''/breastnetpp_best_model.pth''"

definition num_epochs :: int where
  "num_epochs = 10"

text \<open>\<open>d[key]\<close> and \<open>d.get(key, default)\<close>\<close>

definition getitem :: "(string \<rightharpoonup> 'v) \<Rightarrow> string \<Rightarrow> py_error + 'v" where
  "getitem d key = (case d key of None \<Rightarrow> Inl (KeyError key) | Some v \<Rightarrow> Inr v)"

definition get_default :: "(string \<rightharpoonup> 'v) \<Rightarrow> string \<Rightarrow> 'v \<Rightarrow> 'v" where
  "get_default d key dflt = (case d key of None \<Rightarrow> dflt | Some v \<Rightarrow> v)"

text \<open>\<open>torch.load(path)[key]\<close>: a bare \<open>state_dict\<close> has no such key.\<close>

definition load_key :: "('m, 'o) saved \<Rightarrow> string \<Rightarrow> py_error + ('m, 'o) pyval" where
  "load_key f key = (case f of SavedDict d \<Rightarrow> getitem d key | SavedState p \<Rightarrow> Inl (KeyError key))"

definition load_state_dict :: "('m, 'o) pyval \<Rightarrow> py_error + 'm" where
  "load_state_dict v = (case v of PModelState p \<Rightarrow> Inr p | _ \<Rightarrow> Inl TypeError)"

definition opt_load_state_dict :: "('m, 'o) pyval \<Rightarrow> py_error + 'o" where
  "opt_load_state_dict v = (case v of POptState q \<Rightarrow> Inr q | _ \<Rightarrow> Inl TypeError)"

text \<open>
  The resume branch of the cell, after \<open>start_epoch = 0\<close> and \<open>best_val_acc = 0.0\<close>:
  \<open>if resume_checkpoint_path and os.path.exists(resume_checkpoint_path)\<close>.  The result is the
  session with \<open>start_epoch\<close> and \<open>best_val_acc\<close>.
\<close>

definition path_exists :: "(string \<rightharpoonup> ('m, 'o) node) \<Rightarrow> string \<Rightarrow> bool" where
  "path_exists fs path = (fs path \<noteq> None)"

definition start_fresh ::
  "('m, 'o) session \<Rightarrow> py_error + (('m, 'o) session \<times> ('m, 'o) pyval \<times> ('m, 'o) pyval)"
where
  "start_fresh s = Inr (print_ev Print_Fresh s, PInt 0, PFloat 0)"

definition load_resume ::
  "string \<Rightarrow> ('m, 'o) session
     \<Rightarrow> py_error + (('m, 'o) session \<times> ('m, 'o) pyval \<times> ('m, 'o) pyval)"
where
  "load_resume path s =
     thn (torch_load (files s) path) (\<lambda>checkpoint.
     thn (load_key checkpoint ''model_state_dict'') (\<lambda>ms.
     thn (load_state_dict ms) (\<lambda>p.
     thn (load_key checkpoint ''optimizer_state_dict'') (\<lambda>os.
     thn (opt_load_state_dict os) (\<lambda>q.
     thn (load_key checkpoint ''epoch'') (\<lambda>start_epoch.
       let best_val_acc =
             (case checkpoint of
                SavedDict d \<Rightarrow> get_default d ''val_accuracy'' (PFloat 0)
              | SavedState _ \<Rightarrow> PFloat 0)
       in Inr (print_ev (Print_Resumed start_epoch) (s\<lparr>model := p, optimizer := q\<rparr>),
               start_epoch, best_val_acc)))))))"

definition resume ::
  "string option \<Rightarrow> ('m, 'o) session
     \<Rightarrow> py_error + (('m, 'o) session \<times> ('m, 'o) pyval \<times> ('m, 'o) pyval)"
where
  "resume resume_checkpoint_path s =
     (case resume_checkpoint_path of
        None \<Rightarrow> start_fresh s
      | Some path \<Rightarrow>
          if path \<noteq> [] \<and> path_exists (files s) path then load_resume path s
          else start_fresh s)"

text \<open>\<open>val_acc > best_val_acc\<close>, where \<open>best_val_acc\<close> is whatever the checkpoint held.\<close>

definition py_gt :: "real \<Rightarrow> ('m, 'o) pyval \<Rightarrow> py_error + bool" where
  "py_gt a v = (case v of PFloat r \<Rightarrow> Inr (a > r) | PInt n \<Rightarrow> Inr (a > of_int n)
                | _ \<Rightarrow> Inl TypeError)"

text \<open>The dictionary literal that the loop saves after an epoch.\<close>

definition checkpoint_dict ::
  "int \<Rightarrow> 'm \<Rightarrow> 'o \<Rightarrow> real \<Rightarrow> real \<Rightarrow> (string \<rightharpoonup> ('m, 'o) pyval)"
where
  "checkpoint_dict n m opt val_loss val_acc =
     [''epoch'' \<mapsto> PInt n,
      ''model_state_dict'' \<mapsto> PModelState m,
      ''optimizer_state_dict'' \<mapsto> POptState opt,
      ''val_loss'' \<mapsto> PFloat val_loss,
      ''val_accuracy'' \<mapsto> PFloat val_acc]"

definition epoch_body ::
  "('m, 'o, 'i) torch_env \<Rightarrow> 'i batch list \<Rightarrow> 'i batch list
     \<Rightarrow> ('m, 'o) session \<times> ('m, 'o) pyval \<Rightarrow> int
     \<Rightarrow> py_error + (('m, 'o) session \<times> ('m, 'o) pyval)"
where
  "epoch_body E train_loader val_loader st epoch =
     (case st of (s, best_val_acc) \<Rightarrow>
        let s1 = print_ev (Print_Epoch (epoch + 1) num_epochs) s in
        thn (train E (model s1) (optimizer s1) train_loader) (\<lambda>(m', opt', train_loss).
        thn (evaluate E m' val_loader) (\<lambda>(val_loss, val_acc).
          let s2 = print_ev (Print_Summary (epoch + 1) train_loss val_loss val_acc)
                     (s1\<lparr>model := m', optimizer := opt'\<rparr>);
              checkpoint = checkpoint_dict (epoch + 1) m' opt' val_loss val_acc
          in thn (torch_save (SavedDict checkpoint) (epoch_path (epoch + 1)) s2) (\<lambda>s3.
             thn (py_gt val_acc best_val_acc) (\<lambda>better.
               if better
               then thn (torch_save (SavedState m') best_path s3) (\<lambda>s4.
                      Inr (print_ev (Print_Best (epoch + 1) val_acc) s4, PFloat val_acc))
               else Inr (s3, best_val_acc))))))"

fun run_epochs ::
  "('m, 'o, 'i) torch_env \<Rightarrow> 'i batch list \<Rightarrow> 'i batch list
     \<Rightarrow> ('m, 'o) session \<times> ('m, 'o) pyval \<Rightarrow> int list
     \<Rightarrow> py_error + (('m, 'o) session \<times> ('m, 'o) pyval)"
where
  "run_epochs E train_loader val_loader st [] = Inr st"
| "run_epochs E train_loader val_loader st (epoch # rest) =
     thn (epoch_body E train_loader val_loader st epoch) (\<lambda>st'.
       run_epochs E train_loader val_loader st' rest)"

text \<open>\<open>range(start_epoch, num_epochs)\<close> needs an integer.\<close>

definition py_range :: "('m, 'o) pyval \<Rightarrow> int \<Rightarrow> py_error + int list" where
  "py_range lo hi = (case lo of PInt n \<Rightarrow> Inr [n..hi - 1] | _ \<Rightarrow> Inl TypeError)"

definition resume_cell ::
  "('m, 'o, 'i) torch_env \<Rightarrow> 'i batch list \<Rightarrow> 'i batch list \<Rightarrow> string option
     \<Rightarrow> ('m, 'o) session \<Rightarrow> py_error + (('m, 'o) session \<times> ('m, 'o) pyval)"
where
  "resume_cell E train_loader val_loader resume_checkpoint_path s =
     thn (makedirs save_dir s) (\<lambda>s0.
     thn (resume resume_checkpoint_path s0) (\<lambda>(s1, start_epoch, best_val_acc).
     thn (py_range start_epoch num_epochs) (\<lambda>epochs.
       run_epochs E train_loader val_loader (s1, best_val_acc) epochs)))"

text \<open>The epoch numbers printed, and the best-model saves, among a list of events.\<close>

fun epoch_banners :: "('m, 'o) event list \<Rightarrow> int list" where
  "epoch_banners [] = []"
| "epoch_banners (Print_Epoch n k # evs) = n # epoch_banners evs"
| "epoch_banners (ev # evs) = epoch_banners evs"

fun best_saves :: "('m, 'o) event list \<Rightarrow> ('m, 'o) saved list" where
  "best_saves [] = []"
| "best_saves (Saved path obj # evs) =
     (if path = best_path then obj # best_saves evs else best_saves evs)"
| "best_saves (ev # evs) = best_saves evs"

text \<open>A saved object that holds the parameters of the model and nothing else.\<close>

definition only_parameters :: "('m, 'o) saved \<Rightarrow> bool" where
  "only_parameters obj = (case obj of SavedState p \<Rightarrow> True | SavedDict d \<Rightarrow> False)"

text \<open>
  The accuracies printed with a best-model update; and, for a list of accuracies and a starting
  value, those that are strictly greater than the starting value and every accuracy before them.
\<close>

fun best_accs :: "('m, 'o) event list \<Rightarrow> real list" where
  "best_accs [] = []"
| "best_accs (Print_Best n val_acc # evs) = val_acc # best_accs evs"
| "best_accs (ev # evs) = best_accs evs"

fun records :: "real \<Rightarrow> real list \<Rightarrow> real list" where
  "records b [] = []"
| "records b (a # as) = (if a > b then a # records a as else records b as)"

text \<open>The validation accuracies printed, and the events of one epoch of the loop.\<close>

fun val_accs :: "('m, 'o) event list \<Rightarrow> real list" where
  "val_accs [] = []"
| "val_accs (Print_Summary n train_loss val_loss val_acc # evs) = val_acc # val_accs evs"
| "val_accs (ev # evs) = val_accs evs"

definition epoch_events ::
  "int \<Rightarrow> 'm \<Rightarrow> 'o \<Rightarrow> real \<Rightarrow> real \<Rightarrow> real \<Rightarrow> bool \<Rightarrow> ('m, 'o) event list"
where
  "epoch_events n m opt train_loss val_loss val_acc better =
     [Print_Epoch n num_epochs,
      Print_Summary n train_loss val_loss val_acc,
      Saved (epoch_path n) (SavedDict (checkpoint_dict n m opt val_loss val_acc))]
     @ (if better then [Saved best_path (SavedState m), Print_Best n val_acc] else [])"

section \<open>Feature maps\<close>

text \<open>
  A rank-4 tensor (batch x channel x height x width) is its four sizes and its entries.  Entries
  outside the sizes carry no meaning.
\<close>

record tensor =
  dimN :: nat
  dimC :: nat
  dimH :: nat
  dimW :: nat
  elt :: "nat \<Rightarrow> nat \<Rightarrow> nat \<Rightarrow> nat \<Rightarrow> real"

definition tshape :: "tensor \<Rightarrow> nat \<times> nat \<times> nat \<times> nat" where
  "tshape x = (dimN x, dimC x, dimH x, dimW x)"

definition result_shape :: "py_error + tensor \<Rightarrow> (nat \<times> nat \<times> nat \<times> nat) option" where
  "result_shape r = (case r of Inl e \<Rightarrow> None | Inr y \<Rightarrow> Some (tshape y))"

definition sigmoid :: "real \<Rightarrow> real" where
  "sigmoid v = 1 / (1 + exp (- v))"

definition relu :: "real \<Rightarrow> real" where
  "relu v = max 0 v"

definition tmap :: "(real \<Rightarrow> real) \<Rightarrow> tensor \<Rightarrow> tensor" where
  "tmap f x = x\<lparr>elt := (\<lambda>n c i j. f (elt x n c i j))\<rparr>"

text \<open>\<open>nn.AdaptiveAvgPool2d(1)\<close>: the mean over the spatial positions; PyTorch rejects an input
  with an empty non-batch dimension.\<close>

definition adaptive_avg_pool2d :: "tensor \<Rightarrow> py_error + tensor" where
  "adaptive_avg_pool2d x =
     (if dimC x = 0 \<or> dimH x = 0 \<or> dimW x = 0 then Inl RuntimeError
      else Inr \<lparr>dimN = dimN x, dimC = dimC x, dimH = 1, dimW = 1,
                elt = (\<lambda>n c i j. (\<Sum>a<dimH x. \<Sum>b<dimW x. elt x n c a b)
                                   / real (dimH x * dimW x))\<rparr>)"

text \<open>\<open>nn.Conv2d(in_channels, out_channels, kernel_size, padding=padding, bias=False)\<close>,
  stride 1, zero padding.\<close>

record conv2d =
  in_channels :: nat
  out_channels :: nat
  kernel_size :: nat
  padding :: nat
  weight :: "nat \<Rightarrow> nat \<Rightarrow> nat \<Rightarrow> nat \<Rightarrow> real"

definition padded :: "tensor \<Rightarrow> nat \<Rightarrow> nat \<Rightarrow> nat \<Rightarrow> nat \<Rightarrow> nat \<Rightarrow> real" where
  "padded x p n c a b =
     (if p \<le> a \<and> a < p + dimH x \<and> p \<le> b \<and> b < p + dimW x
      then elt x n c (a - p) (b - p) else 0)"

definition conv2d_forward :: "conv2d \<Rightarrow> tensor \<Rightarrow> py_error + tensor" where
  "conv2d_forward cv x =
     (if dimC x \<noteq> in_channels cv then Inl RuntimeError
      else if dimH x + 2 * padding cv < kernel_size cv
              \<or> dimW x + 2 * padding cv < kernel_size cv then Inl RuntimeError
      else Inr \<lparr>dimN = dimN x, dimC = out_channels cv,
                dimH = dimH x + 2 * padding cv - kernel_size cv + 1,
                dimW = dimW x + 2 * padding cv - kernel_size cv + 1,
                elt = (\<lambda>n oc i j.
                   \<Sum>c<in_channels cv. \<Sum>a<kernel_size cv. \<Sum>b<kernel_size cv.
                      weight cv oc c a b * padded x (padding cv) n c (i + a) (j + b))\<rparr>)"

text \<open>Python's \<open>//\<close> on integers.\<close>

definition floordiv :: "int \<Rightarrow> int \<Rightarrow> py_error + int" where
  "floordiv a b = (if b = 0 then Inl ZeroDivisionError else Inr (a div b))"

text \<open>The constructor allocates the weight, which fails on a negative size; the initial
  entries \<open>w\<close> stand for the random initialisation.\<close>

definition Conv2d ::
  "int \<Rightarrow> int \<Rightarrow> int \<Rightarrow> int \<Rightarrow> (nat \<Rightarrow> nat \<Rightarrow> nat \<Rightarrow> nat \<Rightarrow> real) \<Rightarrow> py_error + conv2d"
where
  "Conv2d ic oc k p w =
     (if ic < 0 \<or> oc < 0 \<or> k < 0 \<or> p < 0 then Inl RuntimeError
      else Inr \<lparr>in_channels = nat ic, out_channels = nat oc, kernel_size = nat k,
                padding = nat p, weight = w\<rparr>)"

text \<open>Broadcasting of two sizes, and \<open>x * y\<close> on rank-4 tensors.\<close>

definition bdim :: "nat \<Rightarrow> nat \<Rightarrow> nat option" where
  "bdim a b = (if a = b then Some a else if a = 1 then Some b else if b = 1 then Some a else None)"

definition bidx :: "nat \<Rightarrow> nat \<Rightarrow> nat" where
  "bidx d i = (if d = 1 then 0 else i)"

definition tmul :: "tensor \<Rightarrow> tensor \<Rightarrow> py_error + tensor" where
  "tmul x y =
     (case (bdim (dimN x) (dimN y), bdim (dimC x) (dimC y),
            bdim (dimH x) (dimH y), bdim (dimW x) (dimW y)) of
        (Some n', Some c', Some h', Some w') \<Rightarrow>
          Inr \<lparr>dimN = n', dimC = c', dimH = h', dimW = w',
               elt = (\<lambda>n c i j.
                  elt x (bidx (dimN x) n) (bidx (dimC x) c) (bidx (dimH x) i) (bidx (dimW x) j)
                  * elt y (bidx (dimN y) n) (bidx (dimC y) c) (bidx (dimH y) i) (bidx (dimW y) j))\<rparr>
      | _ \<Rightarrow> Inl RuntimeError)"

text \<open>\<open>torch.max(x, dim=1, keepdim=True)\<close> (its values) and
  \<open>torch.mean(x, dim=1, keepdim=True)\<close>.\<close>

definition max_dim1 :: "tensor \<Rightarrow> py_error + tensor" where
  "max_dim1 x =
     (if dimC x = 0 then Inl RuntimeError
      else Inr \<lparr>dimN = dimN x, dimC = 1, dimH = dimH x, dimW = dimW x,
                elt = (\<lambda>n c i j. Max ((\<lambda>k. elt x n k i j) ` {..<dimC x}))\<rparr>)"

definition mean_dim1 :: "tensor \<Rightarrow> tensor" where
  "mean_dim1 x =
     \<lparr>dimN = dimN x, dimC = 1, dimH = dimH x, dimW = dimW x,
      elt = (\<lambda>n c i j. (\<Sum>k<dimC x. elt x n k i j) / real (dimC x))\<rparr>"

text \<open>\<open>torch.cat([a, b], dim=1)\<close>\<close>

definition cat_dim1 :: "tensor \<Rightarrow> tensor \<Rightarrow> py_error + tensor" where
  "cat_dim1 a b =
     (if dimN a \<noteq> dimN b \<or> dimH a \<noteq> dimH b \<or> dimW a \<noteq> dimW b then Inl RuntimeError
      else Inr \<lparr>dimN = dimN a, dimC = dimC a + dimC b, dimH = dimH a, dimW = dimW a,
                elt = (\<lambda>n c i j. if c < dimC a then elt a n c i j
                                  else elt b n (c - dimC a) i j)\<rparr>)"

section \<open>The attention gate\<close>

text \<open>
  \<open>CBAM\<close> holds the two 1 x 1 convolutions of the channel branch (the pooling, the ReLU and
  the sigmoids have no parameters) and the convolution of the spatial branch.
\<close>

record cbam =
  ca_conv1 :: conv2d
  ca_conv2 :: conv2d
  sa_conv :: conv2d

definition CBAM_init ::
  "int \<Rightarrow> int \<Rightarrow> int \<Rightarrow> (nat \<Rightarrow> nat \<Rightarrow> nat \<Rightarrow> nat \<Rightarrow> real) \<Rightarrow> (nat \<Rightarrow> nat \<Rightarrow> nat \<Rightarrow> nat \<Rightarrow> real)
     \<Rightarrow> (nat \<Rightarrow> nat \<Rightarrow> nat \<Rightarrow> nat \<Rightarrow> real) \<Rightarrow> py_error + cbam"
where
  "CBAM_init channels reduction ksize w1 w2 w3 =
     thn (floordiv channels reduction) (\<lambda>hidden.
     thn (Conv2d channels hidden 1 0 w1) (\<lambda>c1.
     thn (floordiv channels reduction) (\<lambda>hidden'.
     thn (Conv2d hidden' channels 1 0 w2) (\<lambda>c2.
     thn (floordiv ksize 2) (\<lambda>pad.
     thn (Conv2d 2 1 ksize pad w3) (\<lambda>c3.
       Inr \<lparr>ca_conv1 = c1, ca_conv2 = c2, sa_conv = c3\<rparr>))))))"

definition channel_attention :: "cbam \<Rightarrow> tensor \<Rightarrow> py_error + tensor" where
  "channel_attention m x =
     thn (adaptive_avg_pool2d x) (\<lambda>p.
     thn (conv2d_forward (ca_conv1 m) p) (\<lambda>h.
     thn (conv2d_forward (ca_conv2 m) (tmap relu h)) (\<lambda>z.
       Inr (tmap sigmoid z))))"

definition spatial_attention :: "cbam \<Rightarrow> tensor \<Rightarrow> py_error + tensor" where
  "spatial_attention m s =
     thn (conv2d_forward (sa_conv m) s) (\<lambda>z. Inr (tmap sigmoid z))"

definition CBAM_forward :: "cbam \<Rightarrow> tensor \<Rightarrow> py_error + tensor" where
  "CBAM_forward m x =
     thn (channel_attention m x) (\<lambda>ca.
     thn (tmul x ca) (\<lambda>x1.
     thn (max_dim1 x1) (\<lambda>max_out.
     thn (cat_dim1 max_out (mean_dim1 x1)) (\<lambda>sa_input.
     thn (spatial_attention m sa_input) (\<lambda>sa.
       tmul x1 sa)))))"

text \<open>The two stages on their own: the map after channel gating, and the spatial mask computed
  from a map.\<close>

definition channel_gate :: "cbam \<Rightarrow> tensor \<Rightarrow> py_error + tensor" where
  "channel_gate m x = thn (channel_attention m x) (\<lambda>ca. tmul x ca)"

definition spatial_mask :: "cbam \<Rightarrow> tensor \<Rightarrow> py_error + tensor" where
  "spatial_mask m x1 =
     thn (max_dim1 x1) (\<lambda>max_out.
     thn (cat_dim1 max_out (mean_dim1 x1)) (\<lambda>sa_input.
       spatial_attention m sa_input))"

section \<open>The classifier\<close>

text \<open>
  After pooling the feature map is flattened by \<open>x.view(x.size(0), -1)\<close> to a matrix with one row
  per image; \<open>view\<close> cannot infer the size \<open>-1\<close> of a tensor without elements.
\<close>

record matrix =
  rows :: nat
  cols :: nat
  mel :: "nat \<Rightarrow> nat \<Rightarrow> real"

definition view_flat :: "tensor \<Rightarrow> py_error + matrix" where
  "view_flat x =
     (if dimN x = 0 then Inl RuntimeError
      else Inr \<lparr>rows = dimN x, cols = dimC x * dimH x * dimW x,
                mel = (\<lambda>n q. elt x n (q div (dimH x * dimW x))
                                  ((q mod (dimH x * dimW x)) div dimW x) (q mod dimW x))\<rparr>)"

definition mmap :: "(real \<Rightarrow> real) \<Rightarrow> matrix \<Rightarrow> matrix" where
  "mmap f x = x\<lparr>mel := (\<lambda>n q. f (mel x n q))\<rparr>"

text \<open>\<open>nn.Linear(in_features, out_features)\<close>, with bias.\<close>

record linear =
  in_features :: nat
  out_features :: nat
  lweight :: "nat \<Rightarrow> nat \<Rightarrow> real"
  lbias :: "nat \<Rightarrow> real"

definition linear_forward :: "linear \<Rightarrow> matrix \<Rightarrow> py_error + matrix" where
  "linear_forward l x =
     (if cols x \<noteq> in_features l then Inl RuntimeError
      else Inr \<lparr>rows = rows x, cols = out_features l,
                mel = (\<lambda>n oc. (\<Sum>i<in_features l. lweight l oc i * mel x n i) + lbias l oc)\<rparr>)"

text \<open>
  \<open>nn.Dropout(p)\<close>: the identity in evaluation mode; in training mode an entry is kept and
  scaled by \<open>1 / (1 - p)\<close>, or zeroed.  The random choice is the argument \<open>keep\<close>.
\<close>

definition dropout :: "real \<Rightarrow> bool \<Rightarrow> (nat \<Rightarrow> nat \<Rightarrow> bool) \<Rightarrow> matrix \<Rightarrow> matrix" where
  "dropout p training keep x =
     (if training
      then x\<lparr>mel := (\<lambda>n q. if keep n q then mel x n q / (1 - p) else 0)\<rparr>
      else x)"

text \<open>
  \<open>BreastNetPP\<close>: the pretrained backbone (\<open>extract_features\<close>, a parameter here), the attention
  gate, and the head.  The pooling, the ReLU and the sigmoid have no state.
\<close>

record 'img breastnetpp =
  backbone :: "'img \<Rightarrow> py_error + tensor"
  cbam_layer :: cbam
  dropout1 :: real
  fc1 :: linear
  dropout2 :: real
  fc2 :: linear

definition BreastNetPP_init ::
  "('img \<Rightarrow> py_error + tensor)
     \<Rightarrow> (nat \<Rightarrow> nat \<Rightarrow> nat \<Rightarrow> nat \<Rightarrow> real) \<Rightarrow> (nat \<Rightarrow> nat \<Rightarrow> nat \<Rightarrow> nat \<Rightarrow> real)
     \<Rightarrow> (nat \<Rightarrow> nat \<Rightarrow> nat \<Rightarrow> nat \<Rightarrow> real)
     \<Rightarrow> (nat \<Rightarrow> nat \<Rightarrow> real) \<Rightarrow> (nat \<Rightarrow> real) \<Rightarrow> (nat \<Rightarrow> nat \<Rightarrow> real) \<Rightarrow> (nat \<Rightarrow> real)
     \<Rightarrow> py_error + 'img breastnetpp"
where
  "BreastNetPP_init pretrained w1 w2 w3 a1 b1 a2 b2 =
     thn (CBAM_init 1280 16 7 w1 w2 w3) (\<lambda>cb.
       Inr \<lparr>backbone = pretrained, cbam_layer = cb,
            dropout1 = 0.5,
            fc1 = \<lparr>in_features = 1280, out_features = 128, lweight = a1, lbias = b1\<rparr>,
            dropout2 = 0.3,
            fc2 = \<lparr>in_features = 128, out_features = 1, lweight = a2, lbias = b2\<rparr>\<rparr>)"

definition BreastNetPP_forward ::
  "'img breastnetpp \<Rightarrow> bool \<Rightarrow> (nat \<Rightarrow> nat \<Rightarrow> bool) \<Rightarrow> (nat \<Rightarrow> nat \<Rightarrow> bool) \<Rightarrow> 'img
     \<Rightarrow> py_error + matrix"
where
  "BreastNetPP_forward M training keep1 keep2 x =
     thn (backbone M x) (\<lambda>x.
     thn (CBAM_forward (cbam_layer M) x) (\<lambda>x.
     thn (adaptive_avg_pool2d x) (\<lambda>x.
     thn (view_flat x) (\<lambda>x.
     thn (linear_forward (fc1 M) (dropout (dropout1 M) training keep1 x)) (\<lambda>h.
     thn (linear_forward (fc2 M) (dropout (dropout2 M) training keep2 (mmap relu h))) (\<lambda>z.
       Inr (mmap sigmoid z)))))))"

section \<open>The final test evaluation\<close>

text \<open>
  The metrics come from scikit-learn.  The vectors hold 0.0 and 1.0, written \<open>False\<close> and \<open>True\<close>.
  Every metric first checks its targets: vectors of different lengths, and vectors without
  samples, are rejected.
\<close>

definition check_targets :: "bool list \<Rightarrow> bool list \<Rightarrow> py_error + unit" where
  "check_targets y_true y_pred =
     (if length y_true \<noteq> length y_pred then Inl ValueError
      else if y_true = [] then Inl ValueError
      else Inr ())"

text \<open>
  For a class \<open>k\<close>: the samples of the class predicted as the class, the samples of another class
  predicted as the class, and the samples of the class predicted as another.
\<close>

definition tp_count :: "bool \<Rightarrow> bool list \<Rightarrow> bool list \<Rightarrow> nat" where
  "tp_count k y_true y_pred = length (filter (\<lambda>(t, p). t = k \<and> p = k) (zip y_true y_pred))"

definition fp_count :: "bool \<Rightarrow> bool list \<Rightarrow> bool list \<Rightarrow> nat" where
  "fp_count k y_true y_pred = length (filter (\<lambda>(t, p). t \<noteq> k \<and> p = k) (zip y_true y_pred))"

definition fn_count :: "bool \<Rightarrow> bool list \<Rightarrow> bool list \<Rightarrow> nat" where
  "fn_count k y_true y_pred = length (filter (\<lambda>(t, p). t = k \<and> p \<noteq> k) (zip y_true y_pred))"

text \<open>A quotient that takes the value \<open>zero_division\<close> when the denominator is 0.\<close>

definition prf_divide :: "nat \<Rightarrow> nat \<Rightarrow> real \<Rightarrow> real" where
  "prf_divide numerator denominator zero_division =
     (if denominator = 0 then zero_division else real numerator / real denominator)"

definition class_precision :: "bool \<Rightarrow> bool list \<Rightarrow> bool list \<Rightarrow> real \<Rightarrow> real" where
  "class_precision k y_true y_pred zero_division =
     prf_divide (tp_count k y_true y_pred)
       (tp_count k y_true y_pred + fp_count k y_true y_pred) zero_division"

definition class_recall :: "bool \<Rightarrow> bool list \<Rightarrow> bool list \<Rightarrow> real \<Rightarrow> real" where
  "class_recall k y_true y_pred zero_division =
     prf_divide (tp_count k y_true y_pred)
       (tp_count k y_true y_pred + fn_count k y_true y_pred) zero_division"

definition class_f1 :: "bool \<Rightarrow> bool list \<Rightarrow> bool list \<Rightarrow> real \<Rightarrow> real" where
  "class_f1 k y_true y_pred zero_division =
     prf_divide (2 * tp_count k y_true y_pred)
       (2 * tp_count k y_true y_pred + fp_count k y_true y_pred + fn_count k y_true y_pred)
       zero_division"

text \<open>The scalar metrics, with \<open>average='binary'\<close> and the positive label 1.\<close>

definition accuracy_score :: "bool list \<Rightarrow> bool list \<Rightarrow> py_error + real" where
  "accuracy_score y_true y_pred =
     thn (check_targets y_true y_pred) (\<lambda>u.
       Inr (real (length (filter (\<lambda>(t, p). t = p) (zip y_true y_pred)))
              / real (length y_true)))"

definition precision_score :: "bool list \<Rightarrow> bool list \<Rightarrow> real \<Rightarrow> py_error + real" where
  "precision_score y_true y_pred zero_division =
     thn (check_targets y_true y_pred) (\<lambda>u.
       Inr (class_precision True y_true y_pred zero_division))"

definition recall_score :: "bool list \<Rightarrow> bool list \<Rightarrow> real \<Rightarrow> py_error + real" where
  "recall_score y_true y_pred zero_division =
     thn (check_targets y_true y_pred) (\<lambda>u.
       Inr (class_recall True y_true y_pred zero_division))"

definition f1_score :: "bool list \<Rightarrow> bool list \<Rightarrow> real \<Rightarrow> py_error + real" where
  "f1_score y_true y_pred zero_division =
     thn (check_targets y_true y_pred) (\<lambda>u.
       Inr (class_f1 True y_true y_pred zero_division))"

text \<open>
  \<open>classification_report(y_true, y_pred, target_names=["Benign", "Malignant"])\<close>: one row
  (precision, recall, F1, support) per class, the accuracy, and the unweighted and the
  support-weighted means of the rows.  Its \<open>zero_division\<close> is the default, which gives 0 with a
  warning.  The two names must be as many as the classes that occur in the vectors.
  \<open>confusion_matrix\<close> counts, for each true class and each predicted class that occur, the
  samples.
\<close>

definition labels_present :: "bool list \<Rightarrow> bool list \<Rightarrow> bool list" where
  "labels_present y_true y_pred = filter (\<lambda>k. k \<in> set (y_true @ y_pred)) [False, True]"

definition support :: "bool \<Rightarrow> bool list \<Rightarrow> nat" where
  "support k y_true = length (filter (\<lambda>t. t = k) y_true)"

record report =
  class_rows :: "(real \<times> real \<times> real \<times> nat) list"
  report_accuracy :: real
  macro_avg :: "real \<times> real \<times> real"
  weighted_avg :: "real \<times> real \<times> real"

definition report_row :: "bool \<Rightarrow> bool list \<Rightarrow> bool list \<Rightarrow> real \<times> real \<times> real \<times> nat" where
  "report_row k y_true y_pred =
     (class_precision k y_true y_pred 0, class_recall k y_true y_pred 0,
      class_f1 k y_true y_pred 0, support k y_true)"

definition row_mean :: "(real \<times> real \<times> real \<times> nat) list \<Rightarrow> real \<times> real \<times> real" where
  "row_mean rs =
     ((\<Sum>(p, r, f, n)\<leftarrow>rs. p) / real (length rs),
      (\<Sum>(p, r, f, n)\<leftarrow>rs. r) / real (length rs),
      (\<Sum>(p, r, f, n)\<leftarrow>rs. f) / real (length rs))"

definition row_weighted :: "(real \<times> real \<times> real \<times> nat) list \<Rightarrow> real \<times> real \<times> real" where
  "row_weighted rs =
     ((\<Sum>(p, r, f, n)\<leftarrow>rs. p * real n) / real (\<Sum>(p, r, f, n)\<leftarrow>rs. n),
      (\<Sum>(p, r, f, n)\<leftarrow>rs. r * real n) / real (\<Sum>(p, r, f, n)\<leftarrow>rs. n),
      (\<Sum>(p, r, f, n)\<leftarrow>rs. f * real n) / real (\<Sum>(p, r, f, n)\<leftarrow>rs. n))"

definition classification_report :: "bool list \<Rightarrow> bool list \<Rightarrow> py_error + report" where
  "classification_report y_true y_pred =
     thn (check_targets y_true y_pred) (\<lambda>u.
       if length (labels_present y_true y_pred) \<noteq> 2 then Inl ValueError
       else
         let rs = map (\<lambda>k. report_row k y_true y_pred) (labels_present y_true y_pred)
         in Inr \<lparr>class_rows = rs,
                 report_accuracy =
                   real (length (filter (\<lambda>(t, p). t = p) (zip y_true y_pred)))
                     / real (length y_true),
                 macro_avg = row_mean rs,
                 weighted_avg = row_weighted rs\<rparr>)"

definition confusion_matrix :: "bool list \<Rightarrow> bool list \<Rightarrow> py_error + nat list list" where
  "confusion_matrix y_true y_pred =
     thn (check_targets y_true y_pred) (\<lambda>u.
       Inr (map (\<lambda>t. map (\<lambda>p. length (filter (\<lambda>(t', p'). t' = t \<and> p' = p) (zip y_true y_pred)))
                        (labels_present y_true y_pred))
              (labels_present y_true y_pred)))"

text \<open>The four scalar metrics of \<open>test_model\<close>, all with \<open>zero_division=0\<close>.\<close>

definition test_metrics ::
  "bool list \<Rightarrow> bool list \<Rightarrow> py_error + (real \<times> real \<times> real \<times> real)"
where
  "test_metrics y_true y_pred =
     thn (accuracy_score y_true y_pred) (\<lambda>acc.
     thn (precision_score y_true y_pred 0) (\<lambda>prec.
     thn (recall_score y_true y_pred 0) (\<lambda>rec.
     thn (f1_score y_true y_pred 0) (\<lambda>f1.
       Inr (acc, prec, rec, f1)))))"

fun collect_predictions ::
  "('m, 'o, 'i) torch_env \<Rightarrow> 'm \<Rightarrow> 'i batch list \<Rightarrow> bool list \<times> bool list
     \<Rightarrow> py_error + (bool list \<times> bool list)"
where
  "collect_predictions E m [] acc = Inr acc"
| "collect_predictions E m ((imgs, labels) # rest) (all_preds, all_labels) =
     thn (net E m False imgs) (\<lambda>outputs.
       collect_predictions E m rest (all_preds @ threshold outputs, all_labels @ labels))"

text \<open>
  \<open>test_model\<close> returns nothing; what it does is print.  Its result here is what it has printed
  together with its outcome, since an exception can come after the first lines are out: the
  four scalars are printed before the classification report is computed.
\<close>

datatype printed =
    Print_Results_Header
  | Print_Accuracy real
  | Print_Precision real
  | Print_Recall real
  | Print_F1 real
  | Print_Report_Header
  | Print_Report report
  | Print_Confusion_Header
  | Print_Confusion "nat list list"

definition print_results :: "bool list \<Rightarrow> bool list \<Rightarrow> printed list \<times> (py_error + unit)" where
  "print_results y_true y_pred =
     (case test_metrics y_true y_pred of
        Inl e \<Rightarrow> ([], Inl e)
      | Inr (acc, prec, rec, f1) \<Rightarrow>
          let out1 = [Print_Results_Header, Print_Accuracy acc, Print_Precision prec,
                      Print_Recall rec, Print_F1 f1, Print_Report_Header]
          in (case classification_report y_true y_pred of
                Inl e \<Rightarrow> (out1, Inl e)
              | Inr rep \<Rightarrow>
                  let out2 = out1 @ [Print_Report rep, Print_Confusion_Header]
                  in (case confusion_matrix y_true y_pred of
                        Inl e \<Rightarrow> (out2, Inl e)
                      | Inr cm \<Rightarrow> (out2 @ [Print_Confusion cm], Inr ()))))"

definition test_model ::
  "('m, 'o, 'i) torch_env \<Rightarrow> (string \<rightharpoonup> ('m, 'o) node) \<Rightarrow> 'i batch list \<Rightarrow> string
     \<Rightarrow> printed list \<times> (py_error + unit)"
where
  "test_model E fs test_loader checkpoint_path =
     (case thn (torch_load fs checkpoint_path) (\<lambda>checkpoint.
           thn (load_key checkpoint ''model_state_dict'') (\<lambda>ms.
           thn (load_state_dict ms) (\<lambda>m.
             collect_predictions E m test_loader ([], [])))) of
        Inl e \<Rightarrow> ([], Inl e)
      | Inr (all_preds, all_labels) \<Rightarrow> print_results all_labels all_preds)"

section \<open>Concrete inputs\<close>

definition demo_env :: "(unit, unit, real) torch_env" where
  "demo_env = \<lparr>net = (\<lambda>m training imgs. Inr imgs),
               criterion = (\<lambda>outputs labels. Inr 0),
               opt_step = (\<lambda>m opt imgs labels. (m, opt))\<rparr>"

definition demo_loader :: "real batch list" where
  "demo_loader = [([0.9, 0.2], [True, False]), ([0.7], [True])]"

definition quiet_loader :: "real batch list" where
  "quiet_loader = [([0.1, 0.2], [True, False]), ([0.3], [True])]"

definition unit_weight :: "nat \<Rightarrow> nat \<Rightarrow> nat \<Rightarrow> nat \<Rightarrow> real" where
  "unit_weight = (\<lambda>oc c a b. 1)"

definition demo_map :: tensor where
  "demo_map = \<lparr>dimN = 1, dimC = 2, dimH = 3, dimW = 3, elt = (\<lambda>n c i j. real (c + i + j))\<rparr>"

definition demo_gate :: cbam where
  "demo_gate =
     \<lparr>ca_conv1 = \<lparr>in_channels = 2, out_channels = 1, kernel_size = 1, padding = 0,
                    weight = unit_weight\<rparr>,
      ca_conv2 = \<lparr>in_channels = 1, out_channels = 2, kernel_size = 1, padding = 0,
                    weight = unit_weight\<rparr>,
      sa_conv = \<lparr>in_channels = 2, out_channels = 1, kernel_size = 7, padding = 3,
                   weight = unit_weight\<rparr>\<rparr>"

definition pixel_map :: tensor where
  "pixel_map = \<lparr>dimN = 1, dimC = 1, dimH = 1, dimW = 1, elt = unit_weight\<rparr>"

definition even_gate :: cbam where
  "even_gate =
     \<lparr>ca_conv1 = \<lparr>in_channels = 1, out_channels = 1, kernel_size = 1, padding = 0,
                    weight = unit_weight\<rparr>,
      ca_conv2 = \<lparr>in_channels = 1, out_channels = 1, kernel_size = 1, padding = 0,
                    weight = unit_weight\<rparr>,
      sa_conv = \<lparr>in_channels = 2, out_channels = 1, kernel_size = 2, padding = 1,
                   weight = unit_weight\<rparr>\<rparr>"

definition ragged_gate :: cbam where
  "ragged_gate =
     \<lparr>ca_conv1 = \<lparr>in_channels = 10, out_channels = 2, kernel_size = 1, padding = 0,
                    weight = unit_weight\<rparr>,
      ca_conv2 = \<lparr>in_channels = 2, out_channels = 10, kernel_size = 1, padding = 0,
                    weight = unit_weight\<rparr>,
      sa_conv = \<lparr>in_channels = 2, out_channels = 1, kernel_size = 7, padding = 3,
                   weight = unit_weight\<rparr>\<rparr>"

definition demo_checkpoint :: "(unit, unit) saved" where
  "demo_checkpoint = SavedDict (checkpoint_dict 4 () () 0.25 0.5)"

definition demo_session :: "(unit, unit) session" where
  "demo_session =
     \<lparr>model = (), optimizer = (),
      files = [''saved_models'' \<mapsto> Directory,
               ''saved_models/breastnetpp_epoch_4.pth'' \<mapsto> File demo_checkpoint],
      events = []\<rparr>"

definition empty_session :: "(unit, unit) session" where
  "empty_session = \<lparr>model = (), optimizer = (), files = Map.empty, events = []\<rparr>"

text \<open>
  A network whose validation accuracy depends on the number \<open>m\<close> of training steps taken: 1 after
  the first step, 1/2 after the second, 3/4 from then on.  \<open>first_run\<close> is the cell run from a
  fresh start in an empty working directory, \<open>second_run\<close> the cell run again with
  \<open>resume_checkpoint_path\<close> set to the checkpoint of epoch 2.
\<close>

definition hits :: "nat \<Rightarrow> nat" where
  "hits m = (if m = 1 then 4 else if m = 2 then 2 else 3)"

definition drift_env :: "(nat, unit, nat) torch_env" where
  "drift_env = \<lparr>net = (\<lambda>m training imgs. Inr (map (\<lambda>i. if i < hits m then 0.9 else 0.1) imgs)),
                criterion = (\<lambda>outputs labels. Inr 0),
                opt_step = (\<lambda>m opt imgs labels. (m + 1, opt))\<rparr>"

definition drift_train :: "nat batch list" where
  "drift_train = [([0], [True])]"

definition drift_val :: "nat batch list" where
  "drift_val = [([0, 1, 2, 3], [True, True, True, True])]"

definition drift_start :: "(nat, unit) session" where
  "drift_start = \<lparr>model = 0, optimizer = (), files = Map.empty, events = []\<rparr>"

definition first_run :: "py_error + ((nat, unit) session \<times> (nat, unit) pyval)" where
  "first_run = resume_cell drift_env drift_train drift_val None drift_start"

definition second_run :: "py_error + ((nat, unit) session \<times> (nat, unit) pyval)" where
  "second_run =
     thn first_run (\<lambda>(s, best_val_acc).
       resume_cell drift_env drift_train drift_val (Some (epoch_path 2)) s)"

definition result_best ::
  "py_error + (('m, 'o) session \<times> ('m, 'o) pyval) \<Rightarrow> ('m, 'o) node option"
where
  "result_best r = (case r of Inl e \<Rightarrow> None | Inr (s, b) \<Rightarrow> files s best_path)"

definition feature_1280 :: tensor where
  "feature_1280 = \<lparr>dimN = 1, dimC = 1280, dimH = 1, dimW = 1, elt = unit_weight\<rparr>"

definition demo_backbone :: "unit \<Rightarrow> py_error + tensor" where
  "demo_backbone img = Inr feature_1280"

definition flat_weight :: "nat \<Rightarrow> nat \<Rightarrow> real" where
  "flat_weight oc i = 0"

definition zero_bias :: "nat \<Rightarrow> real" where
  "zero_bias oc = 0"

definition keep_all :: "nat \<Rightarrow> nat \<Rightarrow> bool" where
  "keep_all n q = True"

definition demo_net :: "unit breastnetpp" where
  "demo_net =
     \<lparr>backbone = demo_backbone,
      cbam_layer =
        \<lparr>ca_conv1 = \<lparr>in_channels = 1280, out_channels = 80, kernel_size = 1, padding = 0,
                       weight = unit_weight\<rparr>,
         ca_conv2 = \<lparr>in_channels = 80, out_channels = 1280, kernel_size = 1, padding = 0,
                       weight = unit_weight\<rparr>,
         sa_conv = \<lparr>in_channels = 2, out_channels = 1, kernel_size = 7, padding = 3,
                      weight = unit_weight\<rparr>\<rparr>,
      dropout1 = 0.5,
      fc1 = \<lparr>in_features = 1280, out_features = 128, lweight = flat_weight, lbias = zero_bias\<rparr>,
      dropout2 = 0.3,
      fc2 = \<lparr>in_features = 128, out_features = 1, lweight = flat_weight, lbias = zero_bias\<rparr>\<rparr>"

section \<open>Facts\<close>

lemma thn_simps [simp]: "thn (Inl e) f = Inl e" "thn (Inr v) f = f v"
  by (simp_all add: thn_def)

lemma thn_eq_Inr: "thn r f = Inr y \<longleftrightarrow> (\<exists>v. r = Inr v \<and> f v = Inr y)"
  by (cases r) simp_all

subsection \<open>Training and evaluation\<close>

lemma filter_zip_map_fst:
  "filter (\<lambda>(p, l). p = l) (zip (map f xs) ys) = map (\<lambda>(p, l). (f p, l)) (filter (\<lambda>(p, l). f p = l) (zip xs ys))"
  by (induction xs arbitrary: ys) (auto split: list.splits simp: zip_Cons1)

lemma count_equal_threshold:
  assumes "length outputs = length labels"
  shows "count_equal (threshold outputs) labels = Inr (batch_correct outputs labels)"
  using assms by (simp add: count_equal_def threshold_def filter_zip_map_fst batch_correct_def)

lemma evaluate_loop_ok:
  assumes "list_all (batch_ok E m) loader"
  shows "evaluate_loop E m loader (t, c, r) =
     Inr (t + n_samples loader, c + n_correct E m loader, r + loss_sum E m loader)"
  using assms
proof (induction loader arbitrary: t c r)
  case Nil
  then show ?case by (simp add: n_samples_def n_correct_def loss_sum_def)
next
  case (Cons b rest)
  obtain imgs labels where b: "b = (imgs, labels)"
    by (cases b)
  from Cons.prems have ok: "batch_ok E m (imgs, labels)" and rest: "list_all (batch_ok E m) rest"
    by (simp_all add: b)
  from ok obtain outputs loss where
    o: "net E m False imgs = Inr outputs" "length outputs = length labels"
      "criterion E outputs labels = Inr loss"
    by (auto simp: batch_ok_def split: sum.splits)
  show ?case
    using o Cons.IH [OF rest]
    by (simp add: b count_equal_threshold n_samples_def n_correct_def loss_sum_def eval_outputs_def)
qed

lemma n_samples_pos:
  assumes "loader \<noteq> []" and "list_all (batch_ok E m) loader"
  shows "0 < n_samples loader"
  using assms by (cases loader) (auto simp: n_samples_def batch_ok_def)

lemma evaluate_returns:
  assumes "loader \<noteq> []" and "list_all (batch_ok E m) loader"
  shows "evaluate E m loader =
     Inr (loss_sum E m loader / real (length loader),
          real (n_correct E m loader) / real (n_samples loader))"
  using assms n_samples_pos [OF assms]
  by (simp add: evaluate_def evaluate_loop_ok)

lemma batch_count:
  assumes "length outputs = length labels"
  shows "batch_correct outputs labels \<le> length labels"
    and "batch_correct outputs labels = length labels
           \<longleftrightarrow> threshold outputs = labels"
    and "batch_correct outputs labels = 0
           \<longleftrightarrow> threshold outputs = map Not labels"
  using assms unfolding batch_correct_def
proof (induction outputs labels rule: list_induct2)
  case Nil
  {
    case 1 show ?case by simp
  next
    case 2 show ?case by (simp add: threshold_def)
  next
    case 3 show ?case by (simp add: threshold_def)
  }
next
  case (Cons p ps l ls)
  {
    case 1 with Cons show ?case by simp
  next
    case 2 with Cons show ?case by (auto simp: threshold_def)
  next
    case 3 with Cons show ?case by (auto simp: threshold_def)
  }
qed

lemma loader_count:
  assumes "list_all (batch_ok E m) loader"
  shows "n_correct E m loader \<le> n_samples loader"
    and "n_correct E m loader = n_samples loader \<longleftrightarrow> all_match E m loader"
    and "n_correct E m loader = 0 \<longleftrightarrow> all_inverse E m loader"
  using assms
proof (induction loader)
  case Nil
  {
    case 1 show ?case by (simp add: n_correct_def n_samples_def)
  next
    case 2 show ?case by (simp add: n_correct_def n_samples_def all_match_def)
  next
    case 3 show ?case by (simp add: n_correct_def all_inverse_def)
  }
next
  case (Cons b rest)
  obtain imgs labels where b: "b = (imgs, labels)"
    by (cases b)
  {
    fix dummy :: unit
    assume ok: "list_all (batch_ok E m) (b # rest)"
    then have len: "length (eval_outputs E m imgs) = length labels"
      and rest: "list_all (batch_ok E m) rest"
      by (auto simp: b batch_ok_def eval_outputs_def split: sum.splits)
    note bc = batch_count [OF len]
    note ih = Cons.IH [OF rest]
    have c: "n_correct E m (b # rest) =
        batch_correct (eval_outputs E m imgs) labels
        + n_correct E m rest"
      by (simp add: n_correct_def b)
    have n: "n_samples (b # rest) = length labels + n_samples rest"
      by (simp add: n_samples_def b)
    have "n_correct E m (b # rest) \<le> n_samples (b # rest)"
      using bc(1) ih(1) by (simp add: c n)
    moreover have "all_match E m (b # rest) \<longleftrightarrow>
        batch_correct (eval_outputs E m imgs) labels = length labels
        \<and> n_correct E m rest = n_samples rest"
      by (simp add: all_match_def b bc(2) ih(2))
    then have "n_correct E m (b # rest) = n_samples (b # rest) \<longleftrightarrow> all_match E m (b # rest)"
      unfolding c n using bc(1) ih(1) by arith
    moreover have "all_inverse E m (b # rest) \<longleftrightarrow>
        batch_correct (eval_outputs E m imgs) labels = 0
        \<and> n_correct E m rest = 0"
      by (simp add: all_inverse_def b bc(3) ih(3))
    then have "n_correct E m (b # rest) = 0 \<longleftrightarrow> all_inverse E m (b # rest)"
      unfolding c by arith
    ultimately have "n_correct E m (b # rest) \<le> n_samples (b # rest)
      \<and> (n_correct E m (b # rest) = n_samples (b # rest) \<longleftrightarrow> all_match E m (b # rest))
      \<and> (n_correct E m (b # rest) = 0 \<longleftrightarrow> all_inverse E m (b # rest))"
      by blast
  }
  note step = this
  {
    case 1 with step show ?case by blast
  next
    case 2 with step show ?case by blast
  next
    case 3 with step show ?case by blast
  }
qed

text \<open>
  C7. On a loader that is not empty, whose batches are not empty and go through the network and
  the loss, \<open>evaluate\<close> returns the pair (mean loss, accuracy): the sum of the batch losses over the
  number of batches, and the number of samples whose output thresholded at 0.5 equals the label
  over the number of samples.  The accuracy is exactly 1 precisely when every thresholded output
  equals its label, and exactly 0 precisely when every thresholded output is the inverse of its
  label.
\<close>

theorem evaluate_mean_loss_accuracy:
  assumes "loader \<noteq> []" and "list_all (batch_ok E m) loader"
  shows "\<exists>mean_loss accuracy.
     evaluate E m loader = Inr (mean_loss, accuracy)
     \<and> mean_loss = loss_sum E m loader / real (length loader)
     \<and> accuracy = real (n_correct E m loader) / real (n_samples loader)
     \<and> (accuracy = 1 \<longleftrightarrow> all_match E m loader)
     \<and> (accuracy = 0 \<longleftrightarrow> all_inverse E m loader)"
proof -
  note pos = n_samples_pos [OF assms]
  note cnt = loader_count [OF assms(2)]
  have "real (n_correct E m loader) / real (n_samples loader) = 1 \<longleftrightarrow> all_match E m loader"
    using pos cnt(2) by auto
  moreover have "real (n_correct E m loader) / real (n_samples loader) = 0
      \<longleftrightarrow> all_inverse E m loader"
    using pos cnt(3) by simp
  ultimately show ?thesis
    using evaluate_returns [OF assms] by simp
qed

theorem evaluate_mean_loss_accuracy_witness:
  "demo_loader \<noteq> [] \<and> list_all (batch_ok demo_env ()) demo_loader
   \<and> evaluate demo_env () demo_loader = Inr (0, 1)"
proof -
  have h1: "demo_loader \<noteq> []"
    by (simp add: demo_loader_def)
  have h2: "list_all (batch_ok demo_env ()) demo_loader"
    by (simp add: demo_loader_def demo_env_def batch_ok_def)
  have m: "all_match demo_env () demo_loader"
    by (simp add: all_match_def demo_loader_def demo_env_def eval_outputs_def threshold_def)
  have l: "loss_sum demo_env () demo_loader = 0"
    by (simp add: loss_sum_def demo_loader_def demo_env_def eval_outputs_def)
  show ?thesis
    using evaluate_mean_loss_accuracy [OF h1 h2] h1 h2 m l by auto
qed

text \<open>
  C10. On an empty loader neither loop returns a value: \<open>train\<close> divides the running loss by
  \<open>len(loader) = 0\<close>, and \<open>evaluate\<close> divides the number of correct predictions by
  \<open>total = 0\<close>; both raise \<open>ZeroDivisionError\<close>.
\<close>

theorem train_evaluate_empty_loader:
  "train E m opt [] = Inl ZeroDivisionError \<and> evaluate E m [] = Inl ZeroDivisionError"
  by (simp add: train_def evaluate_def)

subsection \<open>The attention gate\<close>

lemma sigmoid_ge0: "0 \<le> sigmoid v"
  by (simp add: sigmoid_def add_nonneg_nonneg)

lemma sigmoid_le1: "sigmoid v \<le> 1"
  by (simp add: sigmoid_def add_pos_nonneg divide_le_eq_1)

lemma bidx_lt: "i < d \<Longrightarrow> bidx d i = i"
  by (auto simp: bidx_def)

lemma bidx_one: "bidx (Suc 0) i = 0"
  by (simp add: bidx_def)

lemma bdim_same: "bdim a a = Some a"
  by (simp add: bdim_def)

lemma bdim_one: "bdim a (Suc 0) = Some a" "bdim (Suc 0) a = Some a"
  by (auto simp: bdim_def)

lemma CBAM_init_Inr:
  assumes "CBAM_init C r k w1 w2 w3 = Inr m"
  shows "r \<noteq> 0 \<and> 0 \<le> C \<and> 0 \<le> C div r \<and> 0 \<le> k
     \<and> ca_conv1 m = \<lparr>in_channels = nat C, out_channels = nat (C div r), kernel_size = 1, padding = 0, weight = w1\<rparr>
     \<and> ca_conv2 m = \<lparr>in_channels = nat (C div r), out_channels = nat C, kernel_size = 1, padding = 0, weight = w2\<rparr>
     \<and> sa_conv m = \<lparr>in_channels = 2, out_channels = 1, kernel_size = nat k, padding = nat (k div 2), weight = w3\<rparr>"
  using assms
  by (auto simp: CBAM_init_def floordiv_def Conv2d_def thn_eq_Inr split: if_splits)

lemma channel_attention_range:
  assumes "channel_attention m x = Inr ca"
  shows "0 \<le> elt ca n c i j \<and> elt ca n c i j \<le> 1"
  using assms
  by (auto simp: channel_attention_def thn_eq_Inr tmap_def sigmoid_ge0 sigmoid_le1)

lemma spatial_attention_range:
  assumes "spatial_attention m s = Inr sa"
  shows "0 \<le> elt sa n c i j \<and> elt sa n c i j \<le> 1"
  using assms
  by (auto simp: spatial_attention_def thn_eq_Inr tmap_def sigmoid_ge0 sigmoid_le1)

lemma channel_attention_value:
  assumes init: "CBAM_init C r k w1 w2 w3 = Inr m"
    and x: "dimC x = nat C" "0 < C" "0 < dimH x" "0 < dimW x"
  shows "\<exists>ca. channel_attention m x = Inr ca
     \<and> tshape ca = (dimN x, nat C, 1, 1)
     \<and> (\<forall>n c. elt ca n c 0 0 =
           sigmoid (\<Sum>h<nat (C div r). w2 c h 0 0 *
              relu (\<Sum>c'<nat C. w1 h c' 0 0 *
                 ((\<Sum>a<dimH x. \<Sum>b<dimW x. elt x n c' a b) / real (dimH x * dimW x)))))"
  using CBAM_init_Inr [OF init] x
  by (simp add: channel_attention_def adaptive_avg_pool2d_def conv2d_forward_def tmap_def
      padded_def tshape_def)

lemma tmul_channel:
  assumes "tshape ca = (dimN x, dimC x, 1, 1)"
  shows "\<exists>y. tmul x ca = Inr y \<and> tshape y = tshape x
     \<and> (\<forall>n<dimN x. \<forall>c<dimC x. \<forall>i<dimH x. \<forall>j<dimW x.
           elt y n c i j = elt x n c i j * elt ca n c 0 0)"
  using assms
  by (simp add: tmul_def tshape_def bdim_same bdim_one bidx_lt bidx_one)

lemma tmul_spatial:
  assumes "tshape sa = (dimN x, 1, dimH x, dimW x)"
  shows "\<exists>y. tmul x sa = Inr y \<and> tshape y = tshape x
     \<and> (\<forall>n<dimN x. \<forall>c<dimC x. \<forall>i<dimH x. \<forall>j<dimW x.
           elt y n c i j = elt x n c i j * elt sa n 0 i j)"
  using assms
  by (simp add: tmul_def tshape_def bdim_same bdim_one bidx_lt bidx_one)

lemma max_dim1_Inr:
  assumes "0 < dimC x"
  shows "\<exists>mx. max_dim1 x = Inr mx \<and> tshape mx = (dimN x, 1, dimH x, dimW x)"
  using assms by (simp add: max_dim1_def tshape_def)

lemma cat_dim1_two:
  assumes "tshape a = (N, 1, H, W)" and "tshape b = (N, 1, H, W)"
  shows "\<exists>s. cat_dim1 a b = Inr s \<and> tshape s = (N, 2, H, W)
     \<and> (\<forall>p n u v. padded s p n 0 u v = padded a p n 0 u v)
     \<and> (\<forall>p n u v. padded s p n (Suc 0) u v = padded b p n 0 u v)"
  using assms by (simp add: cat_dim1_def tshape_def padded_def)

lemma conv2d_forward_odd:
  assumes "dimC s = in_channels cv" and "kernel_size cv = 2 * padding cv + 1"
    and "0 < dimH s" and "0 < dimW s"
  shows "\<exists>z. conv2d_forward cv s = Inr z
     \<and> tshape z = (dimN s, out_channels cv, dimH s, dimW s)
     \<and> (\<forall>n oc i j. elt z n oc i j =
          (\<Sum>c<in_channels cv. \<Sum>a<kernel_size cv. \<Sum>b<kernel_size cv.
              weight cv oc c a b * padded s (padding cv) n c (i + a) (j + b)))"
  using assms by (simp add: conv2d_forward_def tshape_def)

lemma odd_kernel_padding:
  assumes "odd k" and "0 \<le> k"
  shows "nat k = 2 * nat (k div 2) + 1"
proof -
  from assms(1) obtain q where q: "k = 2 * q + 1"
    by (elim oddE)
  with assms(2) have "0 \<le> q"
    by simp
  then show ?thesis
    by (simp add: q nat_add_distrib nat_mult_distrib)
qed

lemma sum_lessThan_two: "(\<Sum>c<2. f c) = f 0 + (f (Suc 0) :: real)"
  by (simp add: lessThan_Suc numeral_2_eq_2)

lemma spatial_mask_value:
  assumes init: "CBAM_init C r k w1 w2 w3 = Inr m"
    and k: "odd k"
    and x: "0 < dimC x1" "0 < dimH x1" "0 < dimW x1"
  shows "\<exists>mx sa. max_dim1 x1 = Inr mx \<and> spatial_mask m x1 = Inr sa
     \<and> tshape sa = (dimN x1, 1, dimH x1, dimW x1)
     \<and> (\<forall>n i j. elt sa n 0 i j =
           sigmoid (\<Sum>a<nat k. \<Sum>b<nat k.
              w3 0 0 a b * padded mx (nat (k div 2)) n 0 (i + a) (j + b)
            + w3 0 1 a b * padded (mean_dim1 x1) (nat (k div 2)) n 0 (i + a) (j + b)))"
proof -
  from CBAM_init_Inr [OF init]
  have sa: "sa_conv m = \<lparr>in_channels = 2, out_channels = 1, kernel_size = nat k,
      padding = nat (k div 2), weight = w3\<rparr>" and k0: "0 \<le> k"
    by simp_all
  from max_dim1_Inr [OF x(1)] obtain mx where mx: "max_dim1 x1 = Inr mx"
    and mxs: "tshape mx = (dimN x1, 1, dimH x1, dimW x1)"
    by blast
  have mes: "tshape (mean_dim1 x1) = (dimN x1, 1, dimH x1, dimW x1)"
    by (simp add: mean_dim1_def tshape_def)
  from cat_dim1_two [OF mxs mes] obtain s where s: "cat_dim1 mx (mean_dim1 x1) = Inr s"
    and ss: "tshape s = (dimN x1, 2, dimH x1, dimW x1)"
    and s0: "\<And>p n u v. padded s p n 0 u v = padded mx p n 0 u v"
    and s1: "\<And>p n u v. padded s p n (Suc 0) u v = padded (mean_dim1 x1) p n 0 u v"
    by blast
  have "\<exists>z. conv2d_forward (sa_conv m) s = Inr z
     \<and> tshape z = (dimN s, out_channels (sa_conv m), dimH s, dimW s)
     \<and> (\<forall>n oc i j. elt z n oc i j =
          (\<Sum>c<in_channels (sa_conv m). \<Sum>a<kernel_size (sa_conv m). \<Sum>b<kernel_size (sa_conv m).
              weight (sa_conv m) oc c a b * padded s (padding (sa_conv m)) n c (i + a) (j + b)))"
    using ss x odd_kernel_padding [OF k k0]
    by (intro conv2d_forward_odd) (simp_all add: sa tshape_def)
  then obtain z where z: "conv2d_forward (sa_conv m) s = Inr z"
    and zs: "tshape z = (dimN x1, 1, dimH x1, dimW x1)"
    and ze: "\<And>n oc i j. elt z n oc i j =
          (\<Sum>c<2. \<Sum>a<nat k. \<Sum>b<nat k. w3 oc c a b * padded s (nat (k div 2)) n c (i + a) (j + b))"
    using ss by (auto simp: sa tshape_def)
  have "spatial_mask m x1 = Inr (tmap sigmoid z)"
    by (simp add: spatial_mask_def spatial_attention_def mx s z)
  moreover have "tshape (tmap sigmoid z) = (dimN x1, 1, dimH x1, dimW x1)"
    using zs by (simp add: tmap_def tshape_def)
  moreover have "elt (tmap sigmoid z) n 0 i j =
      sigmoid (\<Sum>a<nat k. \<Sum>b<nat k.
              w3 0 0 a b * padded mx (nat (k div 2)) n 0 (i + a) (j + b)
            + w3 0 1 a b * padded (mean_dim1 x1) (nat (k div 2)) n 0 (i + a) (j + b))" for n i j
    by (simp add: tmap_def ze sum_lessThan_two s0 s1 sum.distrib)
  ultimately show ?thesis
    using mx by blast
qed

lemma channel_gate_value:
  assumes init: "CBAM_init C r k w1 w2 w3 = Inr m"
    and x: "dimC x = nat C" "0 < C" "0 < dimH x" "0 < dimW x"
  shows "\<exists>ca y. channel_attention m x = Inr ca
     \<and> tshape ca = (dimN x, dimC x, 1, 1)
     \<and> (\<forall>n c. elt ca n c 0 0 =
           sigmoid (\<Sum>h<nat (C div r). w2 c h 0 0 *
              relu (\<Sum>c'<nat C. w1 h c' 0 0 *
                 ((\<Sum>a<dimH x. \<Sum>b<dimW x. elt x n c' a b) / real (dimH x * dimW x)))))
     \<and> channel_gate m x = Inr y \<and> tshape y = tshape x
     \<and> (\<forall>n<dimN x. \<forall>c<dimC x. \<forall>i<dimH x. \<forall>j<dimW x.
           elt y n c i j = elt x n c i j * elt ca n c 0 0)"
proof -
  from channel_attention_value [OF init x] obtain ca where
    ca: "channel_attention m x = Inr ca" and cas: "tshape ca = (dimN x, dimC x, 1, 1)"
    and cav: "\<forall>n c. elt ca n c 0 0 =
           sigmoid (\<Sum>h<nat (C div r). w2 c h 0 0 *
              relu (\<Sum>c'<nat C. w1 h c' 0 0 *
                 ((\<Sum>a<dimH x. \<Sum>b<dimW x. elt x n c' a b) / real (dimH x * dimW x))))"
    using x(1) by auto
  from tmul_channel [OF cas] obtain y where
    y: "tmul x ca = Inr y" and ys: "tshape y = tshape x"
    and yv: "\<forall>n<dimN x. \<forall>c<dimC x. \<forall>i<dimH x. \<forall>j<dimW x.
           elt y n c i j = elt x n c i j * elt ca n c 0 0"
    by blast
  have "channel_gate m x = Inr y"
    by (simp add: channel_gate_def ca y)
  with ca cas cav ys yv show ?thesis
    by blast
qed

lemma CBAM_forward_stages:
  "CBAM_forward m x = thn (channel_gate m x) (\<lambda>x1. thn (spatial_mask m x1) (\<lambda>sa. tmul x1 sa))"
  by (simp add: CBAM_forward_def channel_gate_def spatial_mask_def thn_def split: sum.splits)

lemma CBAM_forward_value:
  assumes init: "CBAM_init C r k w1 w2 w3 = Inr m"
    and k: "odd k"
    and x: "dimC x = nat C" "0 < C" "0 < dimH x" "0 < dimW x"
  shows "\<exists>x1 mx sa y. channel_gate m x = Inr x1 \<and> tshape x1 = tshape x
     \<and> max_dim1 x1 = Inr mx \<and> spatial_mask m x1 = Inr sa
     \<and> tshape sa = (dimN x, 1, dimH x, dimW x)
     \<and> (\<forall>n i j. elt sa n 0 i j =
           sigmoid (\<Sum>a<nat k. \<Sum>b<nat k.
              w3 0 0 a b * padded mx (nat (k div 2)) n 0 (i + a) (j + b)
            + w3 0 1 a b * padded (mean_dim1 x1) (nat (k div 2)) n 0 (i + a) (j + b)))
     \<and> CBAM_forward m x = Inr y \<and> tshape y = tshape x
     \<and> (\<forall>n<dimN x. \<forall>c<dimC x. \<forall>i<dimH x. \<forall>j<dimW x.
           elt y n c i j = elt x1 n c i j * elt sa n 0 i j)"
proof -
  from channel_gate_value [OF init x] obtain x1 where
    x1: "channel_gate m x = Inr x1" and x1s: "tshape x1 = tshape x"
    by blast
  from x1s have d: "dimN x1 = dimN x" "dimC x1 = dimC x" "dimH x1 = dimH x" "dimW x1 = dimW x"
    by (simp_all add: tshape_def)
  have pos: "0 < dimC x1" "0 < dimH x1" "0 < dimW x1"
    using x by (simp_all add: d)
  from spatial_mask_value [OF init k pos] obtain mx sa where
    mx: "max_dim1 x1 = Inr mx" and sa: "spatial_mask m x1 = Inr sa"
    and sas: "tshape sa = (dimN x1, 1, dimH x1, dimW x1)"
    and sav: "\<forall>n i j. elt sa n 0 i j =
           sigmoid (\<Sum>a<nat k. \<Sum>b<nat k.
              w3 0 0 a b * padded mx (nat (k div 2)) n 0 (i + a) (j + b)
            + w3 0 1 a b * padded (mean_dim1 x1) (nat (k div 2)) n 0 (i + a) (j + b))"
    by blast
  from tmul_spatial [OF sas] obtain y where
    y: "tmul x1 sa = Inr y" and ys: "tshape y = tshape x1"
    and yv: "\<forall>n<dimN x1. \<forall>c<dimC x1. \<forall>i<dimH x1. \<forall>j<dimW x1.
           elt y n c i j = elt x1 n c i j * elt sa n 0 i j"
    by blast
  have f: "CBAM_forward m x = Inr y"
    by (simp add: CBAM_forward_stages x1 sa y)
  note sas' = sas [unfolded d] and ys' = ys [unfolded x1s] and yv' = yv [unfolded d]
  from x1 x1s mx sa sas' sav f ys' yv' show ?thesis
    by blast
qed

lemma CBAM_forward_Inr_pre:
  assumes init: "CBAM_init C r k w1 w2 w3 = Inr m"
    and f: "CBAM_forward m x = Inr y"
  shows "dimC x = nat C \<and> 0 < C \<and> 0 < dimH x \<and> 0 < dimW x"
proof -
  from f obtain ca where "channel_attention m x = Inr ca"
    by (auto simp: CBAM_forward_def thn_eq_Inr)
  then obtain p h where p: "adaptive_avg_pool2d x = Inr p"
    and h: "conv2d_forward (ca_conv1 m) p = Inr h"
    by (auto simp: channel_attention_def thn_eq_Inr)
  from p have pp: "dimC x \<noteq> 0" "dimH x \<noteq> 0" "dimW x \<noteq> 0" "dimC p = dimC x"
    by (auto simp: adaptive_avg_pool2d_def split: if_splits)
  from h have "dimC p = in_channels (ca_conv1 m)"
    by (auto simp: conv2d_forward_def split: if_splits)
  with CBAM_init_Inr [OF init] pp show ?thesis
    by auto
qed

lemma demo_gate_init: "CBAM_init 2 2 7 unit_weight unit_weight unit_weight = Inr demo_gate"
  by (simp add: CBAM_init_def floordiv_def Conv2d_def demo_gate_def)

lemma spatial_mask_range:
  assumes "spatial_mask m x1 = Inr sa"
  shows "0 \<le> elt sa n c i j \<and> elt sa n c i j \<le> 1"
  using assms by (auto simp: spatial_mask_def thn_eq_Inr dest: spatial_attention_range)

text \<open>
C1. For a gate built by the constructor with channel count \<open>C\<close> and reduction \<open>r\<close>
  (\<open>1 \<le> r \<le> C\<close>) and an input with \<open>C\<close> channels and a non-empty spatial extent, the channel
  stage returns a weight tensor of shape N x C x 1 x 1, one weight per channel.  Each weight is the
  sigmoid of the second 1 x 1 convolution (\<open>C // r\<close> to \<open>C\<close> channels) of the ReLU of the first
  (\<open>C\<close> to \<open>C // r\<close> channels) of the spatial mean of the input, and lies in [0, 1].  The output of
  the stage has the shape of the input and is the input multiplied, entry by entry, by the weight
  of its channel.
\<close>

theorem channel_attention_weights:
  assumes "CBAM_init C r k w1 w2 w3 = Inr m" and "1 \<le> r" and "r \<le> C"
    and "dimC x = nat C" and "0 < dimH x" and "0 < dimW x"
  shows "\<exists>ca y. channel_attention m x = Inr ca
     \<and> tshape ca = (dimN x, dimC x, 1, 1)
     \<and> (\<forall>n c. 0 \<le> elt ca n c 0 0 \<and> elt ca n c 0 0 \<le> 1)
     \<and> (\<forall>n c. elt ca n c 0 0 =
           sigmoid (\<Sum>h<nat (C div r). w2 c h 0 0 *
              relu (\<Sum>c'<nat C. w1 h c' 0 0 *
                 ((\<Sum>a<dimH x. \<Sum>b<dimW x. elt x n c' a b) / real (dimH x * dimW x)))))
     \<and> channel_gate m x = Inr y \<and> tshape y = tshape x
     \<and> (\<forall>n<dimN x. \<forall>c<dimC x. \<forall>i<dimH x. \<forall>j<dimW x.
           elt y n c i j = elt x n c i j * elt ca n c 0 0)"
proof -
  from assms have "0 < C"
    by simp
  from channel_gate_value [OF assms(1) assms(4) this assms(5) assms(6)]
  obtain ca y where *: "channel_attention m x = Inr ca"
    "tshape ca = (dimN x, dimC x, 1, 1)"
    "\<forall>n c. elt ca n c 0 0 =
           sigmoid (\<Sum>h<nat (C div r). w2 c h 0 0 *
              relu (\<Sum>c'<nat C. w1 h c' 0 0 *
                 ((\<Sum>a<dimH x. \<Sum>b<dimW x. elt x n c' a b) / real (dimH x * dimW x))))"
    "channel_gate m x = Inr y" "tshape y = tshape x"
    "\<forall>n<dimN x. \<forall>c<dimC x. \<forall>i<dimH x. \<forall>j<dimW x.
           elt y n c i j = elt x n c i j * elt ca n c 0 0"
    by blast
  from channel_attention_range [OF *(1)]
  have "\<forall>n c. 0 \<le> elt ca n c 0 0 \<and> elt ca n c 0 0 \<le> 1"
    by blast
  with * show ?thesis
    by blast
qed

theorem channel_attention_weights_witness:
  "CBAM_init 2 2 7 unit_weight unit_weight unit_weight = Inr demo_gate
   \<and> dimC demo_map = nat 2 \<and> 0 < dimH demo_map \<and> 0 < dimW demo_map
   \<and> (\<exists>ca y. channel_attention demo_gate demo_map = Inr ca \<and> tshape ca = (1, 2, 1, 1)
        \<and> channel_gate demo_gate demo_map = Inr y \<and> tshape y = (1, 2, 3, 3))"
proof -
  have h: "dimC demo_map = nat 2" "0 < dimH demo_map" "0 < dimW demo_map"
    by (simp_all add: demo_map_def)
  have s: "tshape demo_map = (1, 2, 3, 3)" "dimN demo_map = 1"
    by (simp_all add: demo_map_def tshape_def)
  from channel_attention_weights [OF demo_gate_init _ _ h]
  show ?thesis
    using demo_gate_init h unfolding s by fastforce
qed

text \<open>
C2. For a gate built with kernel size 7, the spatial mask is computed from the channel-gated map
  \<open>x1\<close>: it is the sigmoid of one 7 x 7 convolution (padding 3, one output channel) of the
  two-channel map made of the maximum and the mean of \<open>x1\<close> across channels.  It has shape
  N x 1 x H x W, one weight per pixel, each in [0, 1].  The result of \<open>forward\<close> is the channel-gated
  map multiplied, entry by entry, by the weight of its pixel.
\<close>

theorem spatial_attention_weights:
  assumes "CBAM_init C r 7 w1 w2 w3 = Inr m" and "1 \<le> r" and "r \<le> C"
    and "dimC x = nat C" and "0 < dimH x" and "0 < dimW x"
  shows "\<exists>x1 mx sa y. channel_gate m x = Inr x1 \<and> tshape x1 = tshape x
     \<and> max_dim1 x1 = Inr mx \<and> spatial_mask m x1 = Inr sa
     \<and> tshape sa = (dimN x, 1, dimH x, dimW x)
     \<and> (\<forall>n i j. 0 \<le> elt sa n 0 i j \<and> elt sa n 0 i j \<le> 1)
     \<and> (\<forall>n i j. elt sa n 0 i j =
           sigmoid (\<Sum>a<7. \<Sum>b<7.
              w3 0 0 a b * padded mx 3 n 0 (i + a) (j + b)
            + w3 0 1 a b * padded (mean_dim1 x1) 3 n 0 (i + a) (j + b)))
     \<and> CBAM_forward m x = Inr y \<and> tshape y = tshape x
     \<and> (\<forall>n<dimN x. \<forall>c<dimC x. \<forall>i<dimH x. \<forall>j<dimW x.
           elt y n c i j = elt x1 n c i j * elt sa n 0 i j)"
proof -
  from assms have c: "0 < C"
    by simp
  have k: "odd (7 :: int)"
    by simp
  from CBAM_forward_value [OF assms(1) k assms(4) c assms(5) assms(6)]
  obtain x1 mx sa y where *: "channel_gate m x = Inr x1" "tshape x1 = tshape x"
    "max_dim1 x1 = Inr mx" "spatial_mask m x1 = Inr sa"
    "tshape sa = (dimN x, 1, dimH x, dimW x)"
    "\<forall>n i j. elt sa n 0 i j =
           sigmoid (\<Sum>a<nat 7. \<Sum>b<nat 7.
              w3 0 0 a b * padded mx (nat (7 div 2)) n 0 (i + a) (j + b)
            + w3 0 1 a b * padded (mean_dim1 x1) (nat (7 div 2)) n 0 (i + a) (j + b))"
    "CBAM_forward m x = Inr y" "tshape y = tshape x"
    "\<forall>n<dimN x. \<forall>c<dimC x. \<forall>i<dimH x. \<forall>j<dimW x.
           elt y n c i j = elt x1 n c i j * elt sa n 0 i j"
    by blast
  have n: "nat 7 = 7" "nat (7 div 2) = 3"
    by simp_all
  from spatial_mask_range [OF *(4)]
  have "\<forall>n i j. 0 \<le> elt sa n 0 i j \<and> elt sa n 0 i j \<le> 1"
    by blast
  with * [unfolded n] show ?thesis
    by blast
qed

theorem spatial_attention_weights_witness:
  "CBAM_init 2 2 7 unit_weight unit_weight unit_weight = Inr demo_gate
   \<and> dimC demo_map = nat 2 \<and> 0 < dimH demo_map \<and> 0 < dimW demo_map
   \<and> (\<exists>x1 sa y. channel_gate demo_gate demo_map = Inr x1
        \<and> spatial_mask demo_gate x1 = Inr sa \<and> tshape sa = (1, 1, 3, 3)
        \<and> CBAM_forward demo_gate demo_map = Inr y \<and> tshape y = (1, 2, 3, 3))"
proof -
  have h: "dimC demo_map = nat 2" "0 < dimH demo_map" "0 < dimW demo_map"
    by (simp_all add: demo_map_def)
  have s: "tshape demo_map = (1, 2, 3, 3)" "dimN demo_map = 1" "dimH demo_map = 3"
      "dimW demo_map = 3"
    by (simp_all add: demo_map_def tshape_def)
  from spatial_attention_weights [OF demo_gate_init _ _ h]
  show ?thesis
    using demo_gate_init h unfolding s by fastforce
qed

text \<open>
C3, amended.  For a gate built with an odd kernel size (7 in the reference configuration),
  whenever \<open>forward\<close> returns, its result has the shape of its input; and it does return on every
  input of shape N x C x H x W with H and W positive, when \<open>1 \<le> r \<le> C\<close>.
\<close>

theorem CBAM_forward_shape_odd_kernel:
  assumes "CBAM_init C r k w1 w2 w3 = Inr m" and "odd k"
  shows "(\<forall>y. CBAM_forward m x = Inr y \<longrightarrow> tshape y = tshape x)
     \<and> (1 \<le> r \<and> r \<le> C \<and> dimC x = nat C \<and> 0 < dimH x \<and> 0 < dimW x
          \<longrightarrow> (\<exists>y. CBAM_forward m x = Inr y))"
proof (intro conjI allI impI)
  fix y
  assume f: "CBAM_forward m x = Inr y"
  from CBAM_forward_Inr_pre [OF assms(1) f]
  have p: "dimC x = nat C" "0 < C" "0 < dimH x" "0 < dimW x"
    by simp_all
  from CBAM_forward_value [OF assms p] f show "tshape y = tshape x"
    by auto
next
  assume "1 \<le> r \<and> r \<le> C \<and> dimC x = nat C \<and> 0 < dimH x \<and> 0 < dimW x"
  then have p: "dimC x = nat C" "0 < C" "0 < dimH x" "0 < dimW x"
    by simp_all
  from CBAM_forward_value [OF assms p] show "\<exists>y. CBAM_forward m x = Inr y"
    by blast
qed

theorem CBAM_forward_shape_odd_kernel_witness:
  "CBAM_init 2 2 7 unit_weight unit_weight unit_weight = Inr demo_gate \<and> odd (7 :: int)
   \<and> result_shape (CBAM_forward demo_gate demo_map) = Some (tshape demo_map)"
proof -
  have k: "odd (7 :: int)"
    by simp
  have h: "1 \<le> (2 :: int) \<and> (2 :: int) \<le> 2 \<and> dimC demo_map = nat 2 \<and> 0 < dimH demo_map
      \<and> 0 < dimW demo_map"
    by (simp add: demo_map_def)
  from CBAM_forward_shape_odd_kernel [OF demo_gate_init k, of demo_map] h
  show ?thesis
    using demo_gate_init by (auto simp: result_shape_def)
qed

text \<open>
C3 as stated fails for an even kernel size: with \<open>kernel_size = 2\<close> the padding is 1, the spatial
  mask of a 1 x 1 map is 2 x 2, and the broadcast product has shape 1 x 1 x 2 x 2.
\<close>

theorem CBAM_forward_shape_counterexample:
  "CBAM_init 1 1 2 unit_weight unit_weight unit_weight = Inr even_gate
   \<and> tshape pixel_map = (1, 1, 1, 1)
   \<and> result_shape (CBAM_forward even_gate pixel_map) = Some (1, 1, 2, 2)"
  by (simp add: CBAM_init_def floordiv_def Conv2d_def even_gate_def CBAM_forward_def
      channel_attention_def adaptive_avg_pool2d_def conv2d_forward_def tmap_def tmul_def
      bdim_def max_dim1_def mean_dim1_def cat_dim1_def spatial_attention_def result_shape_def
      tshape_def pixel_map_def)

text \<open>
C4, amended.  The constructor makes no divisibility check: for \<open>1 \<le> r \<le> C\<close> and a kernel size
  that is not negative it succeeds, whether or not \<open>r\<close> divides \<open>C\<close>, and the bottleneck has
  \<open>C // r\<close> channels (the floor of the quotient).
\<close>

theorem CBAM_init_floor_bottleneck:
  assumes "1 \<le> r" and "r \<le> C" and "0 \<le> k"
  shows "CBAM_init C r k w1 w2 w3 =
     Inr \<lparr>ca_conv1 = \<lparr>in_channels = nat C, out_channels = nat (C div r), kernel_size = 1,
                        padding = 0, weight = w1\<rparr>,
          ca_conv2 = \<lparr>in_channels = nat (C div r), out_channels = nat C, kernel_size = 1,
                        padding = 0, weight = w2\<rparr>,
          sa_conv = \<lparr>in_channels = 2, out_channels = 1, kernel_size = nat k,
                       padding = nat (k div 2), weight = w3\<rparr>\<rparr>"
proof -
  from assms have "0 \<le> C div r" and "0 \<le> C" and "r \<noteq> 0" and "0 \<le> k div 2"
    by (simp_all add: pos_imp_zdiv_nonneg_iff)
  then show ?thesis
    using assms by (simp add: CBAM_init_def floordiv_def Conv2d_def)
qed

theorem CBAM_init_floor_bottleneck_witness:
  "(1 :: int) \<le> 16 \<and> (16 :: int) \<le> 1290 \<and> (0 :: int) \<le> 7 \<and> \<not> (16 :: int) dvd 1290
   \<and> CBAM_init 1290 16 7 unit_weight unit_weight unit_weight =
     Inr \<lparr>ca_conv1 = \<lparr>in_channels = 1290, out_channels = 80, kernel_size = 1,
                        padding = 0, weight = unit_weight\<rparr>,
          ca_conv2 = \<lparr>in_channels = 80, out_channels = 1290, kernel_size = 1,
                        padding = 0, weight = unit_weight\<rparr>,
          sa_conv = \<lparr>in_channels = 2, out_channels = 1, kernel_size = 7,
                       padding = 3, weight = unit_weight\<rparr>\<rparr>"
  using CBAM_init_floor_bottleneck [of 16 1290 7 unit_weight unit_weight unit_weight]
  by simp

text \<open>
C4 as stated fails: 4 does not divide 10, and the constructor returns a gate whose bottleneck
  has 2 channels.
\<close>

theorem CBAM_init_indivisible_counterexample:
  "\<not> (4 :: int) dvd 10
   \<and> CBAM_init 10 4 7 unit_weight unit_weight unit_weight = Inr ragged_gate"
  by (simp add: CBAM_init_def floordiv_def Conv2d_def ragged_gate_def)

subsection \<open>Checkpoints, resuming and the best model\<close>

lemma digit_no_slash: "k < 10 \<Longrightarrow> ''0123456789'' ! k \<noteq> CHR ''/''"
proof -
  assume "k < 10"
  then have "''0123456789'' ! k \<in> set ''0123456789''"
    by (intro nth_mem) simp
  then show ?thesis
    by auto
qed

lemma str_nat_no_slash: "CHR ''/'' \<notin> set (str_nat n)"
proof (induction n rule: str_nat.induct)
  case (1 n)
  show ?case
  proof (cases "n < 10")
    case True
    then show ?thesis
      using digit_no_slash [of n] by (subst str_nat.simps) simp
  next
    case False
    then show ?thesis
      using 1 digit_no_slash [of "n mod 10"] by (subst str_nat.simps) simp
  qed
qed

lemma str_int_no_slash: "CHR ''/'' \<notin> set (str_int i)"
  by (simp add: str_int_def str_nat_no_slash)

lemma dirname_join:
  assumes "CHR ''/'' \<notin> set name"
  shows "dirname (dir @ CHR ''/'' # name) = dir"
proof -
  have "dropWhile (\<lambda>c. c \<noteq> CHR ''/'') (rev name @ CHR ''/'' # rev dir) = CHR ''/'' # rev dir"
    using assms by (subst dropWhile_append2) auto
  then show ?thesis
    by (simp add: dirname_def)
qed

lemma dirname_epoch_path: "dirname (epoch_path n) = save_dir"
proof -
  have "epoch_path n = save_dir @ CHR ''/'' # (''breastnetpp_epoch_'' @ str_int n @ ''.pth'')"
    by (simp add: epoch_path_def)
  moreover have "CHR ''/'' \<notin> set (''breastnetpp_epoch_'' @ str_int n @ ''.pth'')"
    by (simp add: str_int_no_slash)
  ultimately show ?thesis
    using dirname_join [of "''breastnetpp_epoch_'' @ str_int n @ ''.pth''" save_dir] by simp
qed

lemma dirname_best_path: "dirname best_path = save_dir"
proof -
  have "best_path = save_dir @ CHR ''/'' # ''breastnetpp_best_model.pth''"
    by (simp add: best_path_def)
  moreover have "CHR ''/'' \<notin> set ''breastnetpp_best_model.pth''"
    by simp
  ultimately show ?thesis
    using dirname_join [of "''breastnetpp_best_model.pth''" save_dir] by simp
qed

lemma save_dir_nonempty: "save_dir \<noteq> []"
  by (simp add: save_dir_def)

lemma epoch_path_neq_best: "epoch_path n \<noteq> best_path" "best_path \<noteq> epoch_path n"
  by (simp_all add: epoch_path_def best_path_def save_dir_def)

lemma paths_neq_save_dir:
  "epoch_path n \<noteq> save_dir" "save_dir \<noteq> epoch_path n"
  "best_path \<noteq> save_dir" "save_dir \<noteq> best_path"
  by (simp_all add: epoch_path_def best_path_def)

lemma epoch_path_4: "epoch_path 4 = ''saved_models/breastnetpp_epoch_4.pth''"
  by (simp add: epoch_path_def save_dir_def str_int_def str_nat.simps)

text \<open>A session in which the loop can write its files.\<close>

lemma torch_save_epoch:
  assumes "files s save_dir = Some Directory" and "files s (epoch_path n) \<noteq> Some Directory"
  shows "torch_save obj (epoch_path n) s =
     Inr (s\<lparr>files := (files s)(epoch_path n \<mapsto> File obj),
            events := events s @ [Saved (epoch_path n) obj]\<rparr>)"
  using assms by (simp add: torch_save_def dirname_epoch_path save_dir_nonempty)

lemma torch_save_best:
  assumes "files s save_dir = Some Directory" and "files s best_path \<noteq> Some Directory"
  shows "torch_save obj best_path s =
     Inr (s\<lparr>files := (files s)(best_path \<mapsto> File obj),
            events := events s @ [Saved best_path obj]\<rparr>)"
  using assms by (simp add: torch_save_def dirname_best_path save_dir_nonempty)

lemma torch_save_Inr:
  assumes "torch_save obj path s = Inr s'"
  shows "s' = s\<lparr>files := (files s)(path \<mapsto> File obj), events := events s @ [Saved path obj]\<rparr>"
  using assms by (auto simp: torch_save_def split: if_splits)

lemma epoch_banners_append: "epoch_banners (xs @ ys) = epoch_banners xs @ epoch_banners ys"
  by (induction xs rule: epoch_banners.induct) simp_all

lemma best_saves_append: "best_saves (xs @ ys) = best_saves xs @ best_saves ys"
  by (induction xs rule: best_saves.induct) simp_all

lemma val_accs_append: "val_accs (xs @ ys) = val_accs xs @ val_accs ys"
  by (induction xs rule: val_accs.induct) simp_all

lemma best_accs_append: "best_accs (xs @ ys) = best_accs xs @ best_accs ys"
  by (induction xs rule: best_accs.induct) simp_all

lemma epoch_events_views:
  "epoch_banners (epoch_events n m opt train_loss val_loss val_acc better) = [n]"
  "val_accs (epoch_events n m opt train_loss val_loss val_acc better) = [val_acc]"
  "best_saves (epoch_events n m opt train_loss val_loss val_acc better) =
     (if better then [SavedState m] else [])"
  "best_accs (epoch_events n m opt train_loss val_loss val_acc better) =
     (if better then [val_acc] else [])"
  "list_all only_parameters (best_saves (epoch_events n m opt train_loss val_loss val_acc better))"
  by (simp_all add: epoch_events_def epoch_path_neq_best only_parameters_def)

lemma py_gt_float: "py_gt a (PFloat r) = Inr (a > r)"
  by (simp add: py_gt_def)

lemma epoch_body_unfold:
  assumes "train E (model s) (optimizer s) trl = Inr (m', opt', train_loss)"
    and "evaluate E m' vll = Inr (val_loss, val_acc)"
  shows "epoch_body E trl vll (s, best) epoch =
     thn (torch_save (SavedDict (checkpoint_dict (epoch + 1) m' opt' val_loss val_acc))
            (epoch_path (epoch + 1))
            (s\<lparr>model := m', optimizer := opt',
               events := events s @ [Print_Epoch (epoch + 1) num_epochs,
                                    Print_Summary (epoch + 1) train_loss val_loss val_acc]\<rparr>))
       (\<lambda>s3.
     thn (py_gt val_acc best) (\<lambda>better.
       if better
       then thn (torch_save (SavedState m') best_path s3) (\<lambda>s4.
              Inr (print_ev (Print_Best (epoch + 1) val_acc) s4, PFloat val_acc))
       else Inr (s3, best)))"
  by (simp add: epoch_body_def Let_def print_ev_def assms)

lemma epoch_body_step:
  assumes t: "train E (model s) (optimizer s) trl = Inr (m', opt', train_loss)"
    and e: "evaluate E m' vll = Inr (val_loss, val_acc)"
    and g: "py_gt val_acc best = Inr better"
    and w: "files s save_dir = Some Directory" "files s (epoch_path (epoch + 1)) \<noteq> Some Directory"
      "files s best_path \<noteq> Some Directory"
  shows "epoch_body E trl vll (s, best) epoch =
     Inr (s\<lparr>model := m', optimizer := opt',
            files := (if better
                      then (files s)(epoch_path (epoch + 1) \<mapsto>
                               File (SavedDict (checkpoint_dict (epoch + 1) m' opt' val_loss val_acc)),
                             best_path \<mapsto> File (SavedState m'))
                      else (files s)(epoch_path (epoch + 1) \<mapsto>
                               File (SavedDict (checkpoint_dict (epoch + 1) m' opt' val_loss val_acc)))),
            events := events s
               @ epoch_events (epoch + 1) m' opt' train_loss val_loss val_acc better\<rparr>,
          if better then PFloat val_acc else best)"
  using w
  by (simp add: epoch_body_unfold [OF t e] g torch_save_epoch torch_save_best print_ev_def
      epoch_events_def epoch_path_neq_best paths_neq_save_dir)

lemma epoch_body_Inr:
  assumes "epoch_body E trl vll (s, best) epoch = Inr (s', best')"
  shows "\<exists>m' opt' train_loss val_loss val_acc better.
     train E (model s) (optimizer s) trl = Inr (m', opt', train_loss)
     \<and> evaluate E m' vll = Inr (val_loss, val_acc)
     \<and> py_gt val_acc best = Inr better
     \<and> model s' = m' \<and> optimizer s' = opt'
     \<and> events s' = events s @ epoch_events (epoch + 1) m' opt' train_loss val_loss val_acc better
     \<and> files s' best_path = (if better then Some (File (SavedState m')) else files s best_path)
     \<and> best' = (if better then PFloat val_acc else best)"
proof -
  obtain m' opt' train_loss where t: "train E (model s) (optimizer s) trl = Inr (m', opt', train_loss)"
    using assms
    by (cases "train E (model s) (optimizer s) trl")
       (auto simp: epoch_body_def Let_def print_ev_def)
  obtain val_loss val_acc where e: "evaluate E m' vll = Inr (val_loss, val_acc)"
    using assms t
    by (cases "evaluate E m' vll") (auto simp: epoch_body_def Let_def print_ev_def)
  define s2 where "s2 = s\<lparr>model := m', optimizer := opt',
      events := events s @ [Print_Epoch (epoch + 1) num_epochs,
                           Print_Summary (epoch + 1) train_loss val_loss val_acc]\<rparr>"
  define ck where "ck = SavedDict (checkpoint_dict (epoch + 1) m' opt' val_loss val_acc)"
  note u = epoch_body_unfold [OF t e, of best epoch, folded s2_def ck_def]
  obtain s3 where sv: "torch_save ck (epoch_path (epoch + 1)) s2 = Inr s3"
    using assms u by (cases "torch_save ck (epoch_path (epoch + 1)) s2") auto
  obtain better where g: "py_gt val_acc best = Inr better"
    using assms u sv by (cases "py_gt val_acc best") auto
  note s3 = torch_save_Inr [OF sv]
  show ?thesis
  proof (cases better)
    case True
    obtain s4 where sb: "torch_save (SavedState m') best_path s3 = Inr s4"
      using assms u sv g True by (cases "torch_save (SavedState m') best_path s3") auto
    note s4 = torch_save_Inr [OF sb]
    from assms u sv g True sb have r: "s' = print_ev (Print_Best (epoch + 1) val_acc) s4"
      "best' = PFloat val_acc"
      by simp_all
    have "model s' = m'" "optimizer s' = opt'"
      "events s' = events s @ epoch_events (epoch + 1) m' opt' train_loss val_loss val_acc better"
      "files s' best_path = (if better then Some (File (SavedState m')) else files s best_path)"
      by (simp_all add: r s4 s3 s2_def ck_def print_ev_def epoch_events_def True)
    with t e g r(2) True show ?thesis
      by (intro exI [of _ m'] exI [of _ opt'] exI [of _ train_loss] exI [of _ val_loss]
          exI [of _ val_acc] exI [of _ better]) simp
  next
    case False
    from assms u sv g False have r: "s' = s3" "best' = best"
      by simp_all
    have "model s' = m'" "optimizer s' = opt'"
      "events s' = events s @ epoch_events (epoch + 1) m' opt' train_loss val_loss val_acc better"
      "files s' best_path = (if better then Some (File (SavedState m')) else files s best_path)"
      by (simp_all add: r s3 s2_def ck_def epoch_events_def False epoch_path_neq_best)
    with t e g r(2) False show ?thesis
      by (intro exI [of _ m'] exI [of _ opt'] exI [of _ train_loss] exI [of _ val_loss]
          exI [of _ val_acc] exI [of _ better]) simp
  qed
qed

lemma run_epochs_Cons:
  assumes "run_epochs E trl vll st (epoch # rest) = Inr st'"
  shows "\<exists>s1 b1. epoch_body E trl vll st epoch = Inr (s1, b1)
     \<and> run_epochs E trl vll (s1, b1) rest = Inr st'"
  using assms by (cases "epoch_body E trl vll st epoch") auto

lemma run_epochs_events:
  assumes "run_epochs E trl vll (s, best) epochs = Inr (s', best')"
  shows "\<exists>new. events s' = events s @ new \<and> epoch_banners new = map (\<lambda>epoch. epoch + 1) epochs"
  using assms
proof (induction epochs arbitrary: s best)
  case Nil
  then show ?case by simp
next
  case (Cons epoch rest)
  from run_epochs_Cons [OF Cons.prems] obtain s1 b1 where
    body: "epoch_body E trl vll (s, best) epoch = Inr (s1, b1)"
    and run: "run_epochs E trl vll (s1, b1) rest = Inr (s', best')"
    by blast
  from epoch_body_Inr [OF body] obtain new1 where
    e1: "events s1 = events s @ new1" and b1: "epoch_banners new1 = [epoch + 1]"
    using epoch_events_views(1) by metis
  from Cons.IH [OF run] obtain new2 where
    e2: "events s' = events s1 @ new2"
    and b2: "epoch_banners new2 = map (\<lambda>epoch. epoch + 1) rest"
    by blast
  have "events s' = events s @ (new1 @ new2)"
    by (simp add: e1 e2)
  moreover have "epoch_banners (new1 @ new2) = map (\<lambda>epoch. epoch + 1) (epoch # rest)"
    by (simp add: epoch_banners_append b1 b2)
  ultimately show ?case
    by blast
qed

text \<open>One pass of the body from a numeric \<open>best_val_acc\<close>, seen through the events.\<close>

lemma epoch_body_float:
  fixes s :: "('m, 'o) session"
  assumes "epoch_body E trl vll (s, PFloat b0) epoch = Inr (s', best')"
  shows "\<exists>new val_acc. events s' = events s @ new \<and> val_accs new = [val_acc]
     \<and> best_accs new = (if val_acc > b0 then [val_acc] else [])
     \<and> length (best_saves new) = length (best_accs new)
     \<and> list_all only_parameters (best_saves new)
     \<and> best' = PFloat (max val_acc b0)"
proof -
  from epoch_body_Inr [OF assms] obtain m' opt' train_loss val_loss val_acc better where
    gt: "py_gt val_acc (PFloat b0 :: ('m, 'o) pyval) = Inr better"
    and ev: "events s' = events s
        @ epoch_events (epoch + 1) m' opt' train_loss val_loss val_acc better"
    and b: "best' = (if better then PFloat val_acc else PFloat b0)"
    by blast
  from gt have better: "better = (val_acc > b0)"
    by (simp add: py_gt_float)
  define new where "new = epoch_events (epoch + 1) m' opt' train_loss val_loss val_acc better"
  have "best' = PFloat (max val_acc b0)"
    using b by (simp add: better max_def)
  moreover have "val_accs new = [val_acc]"
    "best_accs new = (if val_acc > b0 then [val_acc] else [])"
    "length (best_saves new) = length (best_accs new)"
    "list_all only_parameters (best_saves new)"
    by (simp_all add: new_def epoch_events_views better only_parameters_def)
  ultimately show ?thesis
    using ev [folded new_def] by blast
qed

lemma run_epochs_best:
  assumes "run_epochs E trl vll (s, PFloat b0) epochs = Inr (s', best')"
  shows "\<exists>new. events s' = events s @ new
     \<and> best_accs new = records b0 (val_accs new)
     \<and> length (best_saves new) = length (best_accs new)
     \<and> list_all only_parameters (best_saves new)
     \<and> best' = PFloat (fold max (val_accs new) b0)"
  using assms
proof (induction epochs arbitrary: s b0)
  case Nil
  then show ?case by simp
next
  case (Cons epoch rest)
  from run_epochs_Cons [OF Cons.prems] obtain s1 b1 where
    body: "epoch_body E trl vll (s, PFloat b0) epoch = Inr (s1, b1)"
    and run: "run_epochs E trl vll (s1, b1) rest = Inr (s', best')"
    by blast
  from epoch_body_float [OF body] obtain new1 val_acc where
    e1: "events s1 = events s @ new1" and v1: "val_accs new1 = [val_acc]"
    and a1: "best_accs new1 = (if val_acc > b0 then [val_acc] else [])"
    and l1: "length (best_saves new1) = length (best_accs new1)"
    and o1: "list_all only_parameters (best_saves new1)"
    and b1: "b1 = PFloat (max val_acc b0)"
    by blast
  from Cons.IH [OF run [unfolded b1]] obtain new2 where
    e2: "events s' = events s1 @ new2"
    and a2: "best_accs new2 = records (max val_acc b0) (val_accs new2)"
    and l2: "length (best_saves new2) = length (best_accs new2)"
    and o2: "list_all only_parameters (best_saves new2)"
    and b2: "best' = PFloat (fold max (val_accs new2) (max val_acc b0))"
    by blast
  have "events s' = events s @ (new1 @ new2)"
    by (simp add: e1 e2)
  moreover have "best_accs (new1 @ new2) = records b0 (val_accs (new1 @ new2))"
    by (simp add: best_accs_append val_accs_append v1 a1 a2 max_def)
  moreover have "length (best_saves (new1 @ new2)) = length (best_accs (new1 @ new2))"
    by (simp add: best_saves_append best_accs_append l1 l2)
  moreover have "list_all only_parameters (best_saves (new1 @ new2))"
    by (simp add: best_saves_append o1 o2)
  moreover have "best' = PFloat (fold max (val_accs (new1 @ new2)) b0)"
    by (simp add: val_accs_append v1 b2)
  ultimately show ?case
    by blast
qed

lemma upto_shift: "map (\<lambda>epoch. epoch + 1) [i..j] = [i + 1..j + 1]"
proof (induction "nat (j + 1 - i)" arbitrary: i)
  case 0
  then have "j < i"
    by simp
  then show ?case
    by simp
next
  case (Suc n)
  then have le: "i \<le> j"
    by simp
  from Suc(2) have "n = nat (j + 1 - (i + 1))"
    by simp
  from Suc(1) [OF this] have ih: "map (\<lambda>epoch. epoch + 1) [i + 1..j] = [i + 1 + 1..j + 1]" .
  have "map (\<lambda>epoch. epoch + 1) [i..j] = (i + 1) # map (\<lambda>epoch. epoch + 1) [i + 1..j]"
    using le by (simp add: upto_rec1 [of i j])
  also have "\<dots> = (i + 1) # [i + 1 + 1..j + 1]"
    by (simp only: ih)
  also have "\<dots> = [i + 1..j + 1]"
    using le by (simp add: upto_rec1 [of "i + 1" "j + 1"])
  finally show ?case .
qed


lemma makedirs_Inr:
  assumes "makedirs path s = Inr s0"
  shows "events s0 = events s" and "model s0 = model s" and "optimizer s0 = optimizer s"
    and "files s0 path = Some Directory"
  using assms by (auto simp: makedirs_def split: option.splits node.splits)

lemma makedirs_present: "files s path = Some Directory \<Longrightarrow> makedirs path s = Inr s"
  by (simp add: makedirs_def)

lemma resume_fresh:
  assumes "resume_checkpoint_path = None \<or> resume_checkpoint_path = Some []
     \<or> (\<exists>path. resume_checkpoint_path = Some path \<and> files s path = None)"
  shows "resume resume_checkpoint_path s = Inr (print_ev Print_Fresh s, PInt 0, PFloat 0)"
  using assms by (auto simp: resume_def start_fresh_def path_exists_def)

lemma resume_present:
  assumes "path \<noteq> []" and "files s path = Some (File (SavedDict d))"
    and "d ''model_state_dict'' = Some (PModelState p)"
    and "d ''optimizer_state_dict'' = Some (POptState q)"
    and "d ''epoch'' = Some start_epoch"
  shows "resume (Some path) s =
     Inr (print_ev (Print_Resumed start_epoch) (s\<lparr>model := p, optimizer := q\<rparr>),
          start_epoch, get_default d ''val_accuracy'' (PFloat 0))"
  using assms
  by (simp add: resume_def path_exists_def load_resume_def torch_load_def load_key_def
      getitem_def load_state_dict_def opt_load_state_dict_def)

lemma resume_directory:
  assumes "path \<noteq> []" and "files s path = Some Directory"
  shows "resume (Some path) s = Inl IsADirectoryError"
  using assms by (simp add: resume_def path_exists_def load_resume_def torch_load_def)

lemma resume_dict_Inr:
  assumes "resume (Some path) s = Inr (s1, start_epoch, best)"
    and "path \<noteq> []" and "files s path = Some (File (SavedDict d))"
  shows "best = get_default d ''val_accuracy'' (PFloat 0)"
    and "events s1 = events s @ [Print_Resumed start_epoch]"
  using assms
  by (auto simp: resume_def path_exists_def load_resume_def torch_load_def thn_eq_Inr
      print_ev_def)

lemma resume_cell_banners:
  assumes mk: "makedirs save_dir s = Inr s0"
    and r: "resume resume_checkpoint_path s0 = Inr (print_ev ev s1, PInt e, best)"
    and s1: "events s1 = events s0"
    and c: "resume_cell E trl vll resume_checkpoint_path s = Inr (s', best')"
  shows "\<exists>new. events s' = events s @ ev # new \<and> epoch_banners new = [e + 1..num_epochs]"
proof -
  from c have run: "run_epochs E trl vll (print_ev ev s1, best) [e..num_epochs - 1] = Inr (s', best')"
    by (simp add: resume_cell_def mk r py_range_def)
  from run_epochs_events [OF run] obtain new where
    "events s' = events (print_ev ev s1) @ new"
    and "epoch_banners new = map (\<lambda>epoch. epoch + 1) [e..num_epochs - 1]"
    by blast
  then have "events s' = events s @ ev # new" and "epoch_banners new = [e + 1..num_epochs]"
    by (simp_all add: print_ev_def s1 makedirs_Inr(1) [OF mk] upto_shift)
  then show ?thesis
    by blast
qed

text \<open>One epoch in a working directory where \<open>save_dir\<close> is the only directory.\<close>

lemma epoch_body_next:
  fixes s :: "('m, 'o) session"
  assumes t: "train E (model s) (optimizer s) trl = Inr (m', opt', train_loss)"
    and e: "evaluate E m' vll = Inr (val_loss, val_acc)"
    and d: "files s save_dir = Some Directory"
    and w: "\<forall>p. p \<noteq> save_dir \<longrightarrow> files s p \<noteq> Some Directory"
  shows "\<exists>s1. epoch_body E trl vll (s, PFloat b) epoch = Inr (s1, PFloat (max val_acc b))
     \<and> model s1 = m' \<and> optimizer s1 = opt'
     \<and> files s1 save_dir = Some Directory
     \<and> (\<forall>p. p \<noteq> save_dir \<longrightarrow> files s1 p \<noteq> Some Directory)
     \<and> files s1 (epoch_path (epoch + 1)) =
          Some (File (SavedDict (checkpoint_dict (epoch + 1) m' opt' val_loss val_acc)))
     \<and> files s1 best_path = (if val_acc > b then Some (File (SavedState m')) else files s best_path)
     \<and> (\<forall>p. p \<noteq> best_path \<and> p \<noteq> epoch_path (epoch + 1) \<longrightarrow> files s1 p = files s p)"
proof -
  have g: "py_gt val_acc (PFloat b :: ('m, 'o) pyval) = Inr (val_acc > b)"
    by (rule py_gt_float)
  have w1: "files s (epoch_path (epoch + 1)) \<noteq> Some Directory"
    using w paths_neq_save_dir(1) by blast
  have w2: "files s best_path \<noteq> Some Directory"
    using w paths_neq_save_dir(3) by blast
  note step = epoch_body_step [OF t e g d w1 w2]
  show ?thesis
  proof (cases "val_acc > b")
    case True
    with d w show ?thesis
      unfolding step by (simp add: max_def epoch_path_neq_best paths_neq_save_dir)
  next
    case False
    with d w show ?thesis
      unfolding step by (simp add: max_def epoch_path_neq_best paths_neq_save_dir)
  qed
qed

lemma train_demo: "train demo_env m opt demo_loader = Inr (m, opt, 0)"
  by (simp add: train_def demo_env_def demo_loader_def)

lemma evaluate_demo: "evaluate demo_env m demo_loader = Inr (0, 1)"
proof -
  have h1: "demo_loader \<noteq> []"
    by (simp add: demo_loader_def)
  have h2: "list_all (batch_ok demo_env m) demo_loader"
    by (simp add: demo_loader_def demo_env_def batch_ok_def)
  have "loss_sum demo_env m demo_loader = 0"
    by (simp add: loss_sum_def demo_loader_def demo_env_def eval_outputs_def)
  moreover have "n_correct demo_env m demo_loader = 3"
    by (simp add: n_correct_def demo_loader_def demo_env_def eval_outputs_def batch_correct_def)
  moreover have "n_samples demo_loader = 3"
    by (simp add: n_samples_def demo_loader_def)
  ultimately show ?thesis
    using evaluate_returns [OF h1 h2] by simp
qed

lemma run_epochs_demo:
  fixes s :: "(unit, unit) session"
  assumes "files s save_dir = Some Directory"
    and "\<forall>p. p \<noteq> save_dir \<longrightarrow> files s p \<noteq> Some Directory"
  shows "\<exists>s' best'. run_epochs demo_env demo_loader demo_loader (s, PFloat b) epochs = Inr (s', best')"
  using assms
proof (induction epochs arbitrary: s b)
  case Nil
  show ?case by simp
next
  case (Cons epoch rest)
  from epoch_body_next [OF train_demo evaluate_demo Cons.prems, of b epoch] obtain s1 where
    body: "epoch_body demo_env demo_loader demo_loader (s, PFloat b) epoch
       = Inr (s1, PFloat (max 1 b))"
    and d1: "files s1 save_dir = Some Directory"
    and w1: "\<forall>p. p \<noteq> save_dir \<longrightarrow> files s1 p \<noteq> Some Directory"
    by blast
  from Cons.IH [OF d1 w1, of "max 1 b"] show ?case
    by (simp add: body)
qed

lemma demo_session_dirs:
  "files demo_session save_dir = Some Directory"
  "\<forall>p. p \<noteq> save_dir \<longrightarrow> files demo_session p \<noteq> Some Directory"
  by (simp_all add: demo_session_def save_dir_def)




lemma train_drift: "train drift_env m opt drift_train = Inr (m + 1, opt, 0)"
  by (simp add: train_def drift_env_def drift_train_def)

lemma evaluate_drift: "evaluate drift_env m drift_val = Inr (0, real (hits m) / 4)"
proof -
  have h1: "drift_val \<noteq> []"
    by (simp add: drift_val_def)
  have h2: "list_all (batch_ok drift_env m) drift_val"
    by (simp add: drift_val_def drift_env_def batch_ok_def)
  have "loss_sum drift_env m drift_val = 0"
    by (simp add: loss_sum_def drift_val_def drift_env_def eval_outputs_def)
  moreover have "n_correct drift_env m drift_val = hits m"
    by (simp add: n_correct_def drift_val_def drift_env_def eval_outputs_def batch_correct_def
        hits_def)
  moreover have "n_samples drift_val = 4"
    by (simp add: n_samples_def drift_val_def)
  ultimately show ?thesis
    using evaluate_returns [OF h1 h2] by simp
qed

text \<open>From the third training step on, no epoch of the drifting network beats 3/4.\<close>

lemma drift_steady:
  fixes s :: "(nat, unit) session"
  assumes "files s save_dir = Some Directory"
    and "\<forall>p. p \<noteq> save_dir \<longrightarrow> files s p \<noteq> Some Directory"
    and "2 \<le> model s" and "3 / 4 \<le> b"
  shows "\<exists>s'. run_epochs drift_env drift_train drift_val (s, PFloat b) epochs = Inr (s', PFloat b)
     \<and> files s' save_dir = Some Directory
     \<and> (\<forall>p. p \<noteq> save_dir \<longrightarrow> files s' p \<noteq> Some Directory)
     \<and> files s' best_path = files s best_path
     \<and> (\<forall>p. p \<noteq> best_path \<and> (\<forall>e\<in>set epochs. p \<noteq> epoch_path (e + 1))
           \<longrightarrow> files s' p = files s p)"
  using assms
proof (induction epochs arbitrary: s)
  case Nil
  then show ?case by simp
next
  case (Cons epoch rest)
  have h: "hits (model s + 1) = 3"
    using Cons.prems(3) by (simp add: hits_def)
  have e: "evaluate drift_env (model s + 1) drift_val = Inr (0, 3 / 4)"
    using evaluate_drift [of "model s + 1"] h by simp
  from epoch_body_next [OF train_drift e Cons.prems(1,2), of b epoch] obtain s1 where
    body: "epoch_body drift_env drift_train drift_val (s, PFloat b) epoch
       = Inr (s1, PFloat (max (3 / 4) b))"
    and m1: "model s1 = model s + 1"
    and d1: "files s1 save_dir = Some Directory"
    and w1: "\<forall>p. p \<noteq> save_dir \<longrightarrow> files s1 p \<noteq> Some Directory"
    and b1: "files s1 best_path
       = (if 3 / 4 > b then Some (File (SavedState (model s + 1))) else files s best_path)"
    and o1: "\<forall>p. p \<noteq> best_path \<and> p \<noteq> epoch_path (epoch + 1) \<longrightarrow> files s1 p = files s p"
    by blast
  have mx: "max (3 / 4) b = b"
    using Cons.prems(4) by simp
  have b1': "files s1 best_path = files s best_path"
    using b1 Cons.prems(4) by simp
  have "2 \<le> model s1"
    using m1 Cons.prems(3) by simp
  from Cons.IH [OF d1 w1 this Cons.prems(4)] obtain s' where
    run: "run_epochs drift_env drift_train drift_val (s1, PFloat b) rest = Inr (s', PFloat b)"
    and d': "files s' save_dir = Some Directory"
    and w': "\<forall>p. p \<noteq> save_dir \<longrightarrow> files s' p \<noteq> Some Directory"
    and b': "files s' best_path = files s1 best_path"
    and o': "\<forall>p. p \<noteq> best_path \<and> (\<forall>e\<in>set rest. p \<noteq> epoch_path (e + 1))
           \<longrightarrow> files s' p = files s1 p"
    by blast
  have "run_epochs drift_env drift_train drift_val (s, PFloat b) (epoch # rest) = Inr (s', PFloat b)"
    by (simp only: run_epochs.simps body mx thn_simps run)
  moreover have "files s' best_path = files s best_path"
    by (simp add: b' b1')
  moreover have "\<forall>p. p \<noteq> best_path \<and> (\<forall>e\<in>set (epoch # rest). p \<noteq> epoch_path (e + 1))
           \<longrightarrow> files s' p = files s p"
    using o' o1 by simp
  ultimately show ?case
    using d' w' by blast
qed

lemma epoch_path_2_kept: "\<forall>e\<in>set [2..9]. epoch_path 2 \<noteq> epoch_path (e + 1)"
  by (simp add: upto_rec1 epoch_path_def str_int_def str_nat.simps)

lemma first_run_result:
  "\<exists>s1 b1. first_run = Inr (s1, b1)
     \<and> files s1 save_dir = Some Directory
     \<and> (\<forall>p. p \<noteq> save_dir \<longrightarrow> files s1 p \<noteq> Some Directory)
     \<and> files s1 best_path = Some (File (SavedState 1))
     \<and> files s1 (epoch_path 2) = Some (File (SavedDict (checkpoint_dict 2 2 () 0 (1 / 2))))"
proof -
  define s0 :: "(nat, unit) session"
    where "s0 = print_ev Print_Fresh (drift_start\<lparr>files := [save_dir \<mapsto> Directory]\<rparr>)"
  have cell: "first_run = run_epochs drift_env drift_train drift_val (s0, PFloat 0) (0 # 1 # [2..9])"
    by (simp add: first_run_def resume_cell_def makedirs_def drift_start_def resume_def
        start_fresh_def py_range_def num_epochs_def s0_def upto_rec1)
  have d0: "files s0 save_dir = Some Directory"
    and w0: "\<forall>p. p \<noteq> save_dir \<longrightarrow> files s0 p \<noteq> Some Directory"
    and m0: "model s0 = 0" and o0: "optimizer s0 = ()"
    by (simp_all add: s0_def print_ev_def drift_start_def)
  have t0: "train drift_env (model s0) (optimizer s0) drift_train = Inr (1, (), 0)"
    using train_drift [of 0 "()"] by (simp add: m0)
  have e0: "evaluate drift_env 1 drift_val = Inr (0, 1)"
    using evaluate_drift [of 1] by (simp add: hits_def)
  from epoch_body_next [OF t0 e0 d0 w0, of 0 0] obtain s1 where
    body1: "epoch_body drift_env drift_train drift_val (s0, PFloat 0) 0 = Inr (s1, PFloat 1)"
    and m1: "model s1 = 1"
    and d1: "files s1 save_dir = Some Directory"
    and w1: "\<forall>p. p \<noteq> save_dir \<longrightarrow> files s1 p \<noteq> Some Directory"
    and b1: "files s1 best_path = Some (File (SavedState 1))"
    by auto
  have t1: "train drift_env (model s1) (optimizer s1) drift_train = Inr (2, (), 0)"
    using train_drift [of 1 "()"] by (simp add: m1)
  have e1: "evaluate drift_env 2 drift_val = Inr (0, 1 / 2)"
    using evaluate_drift [of 2] by (simp add: hits_def)
  from epoch_body_next [OF t1 e1 d1 w1, of 1 1] obtain s2 where
    body2: "epoch_body drift_env drift_train drift_val (s1, PFloat 1) 1 = Inr (s2, PFloat 1)"
    and m2: "model s2 = 2"
    and d2: "files s2 save_dir = Some Directory"
    and w2: "\<forall>p. p \<noteq> save_dir \<longrightarrow> files s2 p \<noteq> Some Directory"
    and c2: "files s2 (epoch_path 2) = Some (File (SavedDict (checkpoint_dict 2 2 () 0 (1 / 2))))"
    and b2: "files s2 best_path = files s1 best_path"
    by auto
  have "2 \<le> model s2"
    by (simp add: m2)
  from drift_steady [OF d2 w2 this, of 1 "[2..9]"] obtain s' where
    run: "run_epochs drift_env drift_train drift_val (s2, PFloat 1) [2..9] = Inr (s', PFloat 1)"
    and d': "files s' save_dir = Some Directory"
    and w': "\<forall>p. p \<noteq> save_dir \<longrightarrow> files s' p \<noteq> Some Directory"
    and b': "files s' best_path = files s2 best_path"
    and o': "\<forall>p. p \<noteq> best_path \<and> (\<forall>e\<in>set [2..9]. p \<noteq> epoch_path (e + 1))
           \<longrightarrow> files s' p = files s2 p"
    by auto
  have "first_run = Inr (s', PFloat 1)"
    unfolding cell by (simp only: run_epochs.simps body1 body2 thn_simps run)
  moreover have "files s' best_path = Some (File (SavedState 1))"
    by (simp add: b' b2 b1)
  moreover have "files s' (epoch_path 2) = files s2 (epoch_path 2)"
    using o' epoch_path_2_kept epoch_path_neq_best(1) [of 2] by blast
  ultimately show ?thesis
    using d' w' c2 by auto
qed

lemma second_run_result: "result_best second_run = Some (File (SavedState 3))"
proof -
  from first_run_result obtain s1 b1 where
    f: "first_run = Inr (s1, b1)"
    and d1: "files s1 save_dir = Some Directory"
    and w1: "\<forall>p. p \<noteq> save_dir \<longrightarrow> files s1 p \<noteq> Some Directory"
    and c1: "files s1 (epoch_path 2) = Some (File (SavedDict (checkpoint_dict 2 2 () 0 (1 / 2))))"
    by blast
  define s2 where "s2 = print_ev (Print_Resumed (PInt 2)) (s1\<lparr>model := 2, optimizer := ()\<rparr>)"
  have ne: "epoch_path 2 \<noteq> []"
    by (simp add: epoch_path_def)
  have r: "resume (Some (epoch_path 2)) s1 = Inr (s2, PInt 2, PFloat (1 / 2))"
    unfolding s2_def
    using resume_present [OF ne c1, of 2 "()" "PInt 2"]
    by (simp add: checkpoint_dict_def get_default_def)
  have cell: "second_run
      = run_epochs drift_env drift_train drift_val (s2, PFloat (1 / 2)) (2 # [3..9])"
    by (simp add: second_run_def f resume_cell_def makedirs_present [OF d1] r py_range_def
        num_epochs_def upto_rec1)
  have d2: "files s2 save_dir = Some Directory"
    and w2: "\<forall>p. p \<noteq> save_dir \<longrightarrow> files s2 p \<noteq> Some Directory"
    and m2: "model s2 = 2" and o2: "optimizer s2 = ()"
    using d1 w1 by (simp_all add: s2_def print_ev_def)
  have t2: "train drift_env (model s2) (optimizer s2) drift_train = Inr (3, (), 0)"
    using train_drift [of 2 "()"] by (simp add: m2)
  have e2: "evaluate drift_env 3 drift_val = Inr (0, 3 / 4)"
    using evaluate_drift [of 3] by (simp add: hits_def)
  from epoch_body_next [OF t2 e2 d2 w2, of "1 / 2" 2] obtain s3 where
    body: "epoch_body drift_env drift_train drift_val (s2, PFloat (1 / 2)) 2
       = Inr (s3, PFloat (3 / 4))"
    and m3: "model s3 = 3"
    and d3: "files s3 save_dir = Some Directory"
    and w3: "\<forall>p. p \<noteq> save_dir \<longrightarrow> files s3 p \<noteq> Some Directory"
    and b3: "files s3 best_path = Some (File (SavedState 3))"
    by auto
  have "2 \<le> model s3"
    by (simp add: m3)
  from drift_steady [OF d3 w3 this, of "3 / 4" "[3..9]"] obtain s' where
    run: "run_epochs drift_env drift_train drift_val (s3, PFloat (3 / 4)) [3..9]
       = Inr (s', PFloat (3 / 4))"
    and b': "files s' best_path = files s3 best_path"
    by auto
  have r2: "second_run = Inr (s', PFloat (3 / 4))"
    unfolding cell by (simp only: run_epochs.simps body thn_simps run)
  have "result_best (Inr (s', PFloat (3 / 4))) = Some (File (SavedState 3))"
    by (simp add: result_best_def b' b3)
  then show ?thesis
    unfolding r2 .
qed



subsection \<open>The test metrics\<close>

lemma no_prediction_filter:
  assumes "k \<notin> set y_pred"
  shows "filter (\<lambda>(t, p). Q t \<and> p = k) (zip y_true y_pred) = []"
proof -
  have "\<forall>x\<in>set (zip y_true y_pred). snd x \<noteq> k"
    using assms by (metis in_set_zipE prod.collapse)
  then show ?thesis
    by (auto simp: filter_empty_conv)
qed

lemma no_prediction_counts:
  assumes "k \<notin> set y_pred"
  shows "tp_count k y_true y_pred = 0" and "fp_count k y_true y_pred = 0"
  using no_prediction_filter [OF assms, of "\<lambda>t. t = k" y_true]
    no_prediction_filter [OF assms, of "\<lambda>t. t \<noteq> k" y_true]
  by (simp_all add: tp_count_def fp_count_def)

lemma no_prediction_row:
  assumes "k \<notin> set y_pred"
  shows "class_precision k y_true y_pred 0 = 0" and "class_recall k y_true y_pred 0 = 0"
    and "class_f1 k y_true y_pred 0 = 0"
  by (simp_all add: class_precision_def class_recall_def class_f1_def prf_divide_def
      no_prediction_counts [OF assms])

lemma labels_present_no_positive:
  assumes "length y_true = length y_pred" and "y_true \<noteq> []" and "True \<notin> set y_pred"
  shows "length (labels_present y_true y_pred) = 2 \<longleftrightarrow> True \<in> set y_true"
proof -
  from assms(1,2) have "y_pred \<noteq> []"
    by auto
  then obtain p where "p \<in> set y_pred"
    by (cases y_pred) auto
  with assms(3) have "False \<in> set y_pred"
    by (cases p) auto
  with assms(3) show ?thesis
    by (auto simp: labels_present_def)
qed


lemma collect_quiet:
  "collect_predictions demo_env () quiet_loader ([], [])
     = Inr ([False, False, False], [True, False, True])"
  by (simp add: quiet_loader_def demo_env_def threshold_def)


subsection \<open>The classification head\<close>

lemma BreastNetPP_init_Inr:
  assumes "BreastNetPP_init bb w1 w2 w3 a1 b1 a2 b2 = Inr M"
  shows "backbone M = bb \<and> CBAM_init 1280 16 7 w1 w2 w3 = Inr (cbam_layer M)
     \<and> dropout1 M = 0.5 \<and> dropout2 M = 0.3
     \<and> fc1 M = \<lparr>in_features = 1280, out_features = 128, lweight = a1, lbias = b1\<rparr>
     \<and> fc2 M = \<lparr>in_features = 128, out_features = 1, lweight = a2, lbias = b2\<rparr>"
  using assms by (auto simp: BreastNetPP_init_def thn_eq_Inr)

lemma BreastNetPP_forward_range:
  assumes "BreastNetPP_forward M training keep1 keep2 x = Inr y"
  shows "0 \<le> mel y n q \<and> mel y n q \<le> 1"
  using assms
  by (auto simp: BreastNetPP_forward_def thn_eq_Inr mmap_def sigmoid_ge0 sigmoid_le1)

lemma head_value:
  assumes g: "dimC g = 1280" "0 < dimN g" "0 < dimH g" "0 < dimW g"
    and d: "dropout1 M = p1" "dropout2 M = p2"
    and l1: "fc1 M = \<lparr>in_features = 1280, out_features = 128, lweight = a1, lbias = b1\<rparr>"
    and l2: "fc2 M = \<lparr>in_features = 128, out_features = 1, lweight = a2, lbias = b2\<rparr>"
  shows "\<exists>p v h z.
       adaptive_avg_pool2d g = Inr p \<and> view_flat p = Inr v
     \<and> linear_forward (fc1 M) (dropout (dropout1 M) training keep1 v) = Inr h
     \<and> linear_forward (fc2 M) (dropout (dropout2 M) training keep2 (mmap relu h)) = Inr z
     \<and> rows z = dimN g \<and> cols z = 1
     \<and> (\<forall>n. mel z n 0 =
          (\<Sum>j<128. a2 0 j *
             (if training
              then (if keep2 n j
                    then relu ((\<Sum>c<1280. a1 j c *
                           (if keep1 n c
                            then ((\<Sum>a<dimH g. \<Sum>b<dimW g. elt g n c a b)
                                    / real (dimH g * dimW g)) / (1 - p1)
                            else 0)) + b1 j) / (1 - p2)
                    else 0)
              else relu ((\<Sum>c<1280. a1 j c *
                           ((\<Sum>a<dimH g. \<Sum>b<dimW g. elt g n c a b)
                              / real (dimH g * dimW g))) + b1 j))) + b2 0)"
  using g
  by (cases training)
     (simp_all add: adaptive_avg_pool2d_def view_flat_def linear_forward_def dropout_def
        mmap_def l1 l2 d cong: if_cong)

text \<open>
C8. For the model built by \<open>BreastNetPP.__init__\<close> and a backbone feature map of 1280 channels
  with a positive batch size and spatial extent, \<open>forward\<close> returns one value per image.  It is the
  sigmoid of the second dense layer (128 to 1) applied to the ReLU of the first (1280 to 128)
  applied to the spatial mean of the gated map; in training mode the entries that the first
  dropout keeps are divided by \<open>1 - 0.5\<close> and those that the second keeps by \<open>1 - 0.3\<close>, the others
  are zeroed, and in evaluation mode the dropouts do nothing.  The value lies in [0, 1].
\<close>

theorem classification_head:
  assumes init: "BreastNetPP_init bb w1 w2 w3 a1 b1 a2 b2 = Inr M"
    and f: "bb x = Inr f" "dimC f = 1280" "0 < dimN f" "0 < dimH f" "0 < dimW f"
  shows "\<exists>g y. CBAM_forward (cbam_layer M) f = Inr g \<and> tshape g = tshape f
     \<and> BreastNetPP_forward M training keep1 keep2 x = Inr y
     \<and> rows y = dimN f \<and> cols y = 1
     \<and> (\<forall>n. 0 \<le> mel y n 0 \<and> mel y n 0 \<le> 1)
     \<and> (\<forall>n. mel y n 0 = sigmoid (
          (\<Sum>j<128. a2 0 j *
             (if training
              then (if keep2 n j
                    then relu ((\<Sum>c<1280. a1 j c *
                           (if keep1 n c
                            then ((\<Sum>a<dimH g. \<Sum>b<dimW g. elt g n c a b)
                                    / real (dimH g * dimW g)) / (1 - 0.5)
                            else 0)) + b1 j) / (1 - 0.3)
                    else 0)
              else relu ((\<Sum>c<1280. a1 j c *
                           ((\<Sum>a<dimH g. \<Sum>b<dimW g. elt g n c a b)
                              / real (dimH g * dimW g))) + b1 j))) + b2 0))"
proof -
  from BreastNetPP_init_Inr [OF init] have
    bb: "backbone M = bb" and cb: "CBAM_init 1280 16 7 w1 w2 w3 = Inr (cbam_layer M)"
    and d: "dropout1 M = 0.5" "dropout2 M = 0.3"
    and l1: "fc1 M = \<lparr>in_features = 1280, out_features = 128, lweight = a1, lbias = b1\<rparr>"
    and l2: "fc2 M = \<lparr>in_features = 128, out_features = 1, lweight = a2, lbias = b2\<rparr>"
    by simp_all
  have k: "odd (7 :: int)" and c: "dimC f = nat 1280" "0 < (1280 :: int)"
    using f(2) by simp_all
  from CBAM_forward_value [OF cb k c f(4) f(5)] obtain g where
    g: "CBAM_forward (cbam_layer M) f = Inr g" and gs: "tshape g = tshape f"
    by blast
  from gs f have gd: "dimC g = 1280" "0 < dimN g" "0 < dimH g" "0 < dimW g" "dimN g = dimN f"
    by (simp_all add: tshape_def)
  from head_value [OF gd(1-4) d l1 l2, of training keep1 keep2] obtain p v h z where
    p: "adaptive_avg_pool2d g = Inr p" and v: "view_flat p = Inr v"
    and h: "linear_forward (fc1 M) (dropout (dropout1 M) training keep1 v) = Inr h"
    and z: "linear_forward (fc2 M) (dropout (dropout2 M) training keep2 (mmap relu h)) = Inr z"
    and zs: "rows z = dimN g" "cols z = 1"
    and zv: "\<forall>n. mel z n 0 =
          (\<Sum>j<128. a2 0 j *
             (if training
              then (if keep2 n j
                    then relu ((\<Sum>c<1280. a1 j c *
                           (if keep1 n c
                            then ((\<Sum>a<dimH g. \<Sum>b<dimW g. elt g n c a b)
                                    / real (dimH g * dimW g)) / (1 - 0.5)
                            else 0)) + b1 j) / (1 - 0.3)
                    else 0)
              else relu ((\<Sum>c<1280. a1 j c *
                           ((\<Sum>a<dimH g. \<Sum>b<dimW g. elt g n c a b)
                              / real (dimH g * dimW g))) + b1 j))) + b2 0"
    by blast
  have y: "BreastNetPP_forward M training keep1 keep2 x = Inr (mmap sigmoid z)"
    by (simp add: BreastNetPP_forward_def bb f(1) g p v h z)
  have ys: "rows (mmap sigmoid z) = dimN f" "cols (mmap sigmoid z) = 1"
    using zs gd(5) by (simp_all add: mmap_def)
  have yr: "\<forall>n. 0 \<le> mel (mmap sigmoid z) n 0 \<and> mel (mmap sigmoid z) n 0 \<le> 1"
    using BreastNetPP_forward_range [OF y] by blast
  have yv: "\<forall>n. mel (mmap sigmoid z) n 0 = sigmoid (mel z n 0)"
    by (simp add: mmap_def)
  note yv' = yv [unfolded zv [rule_format]]
  from g gs y ys yr yv' show ?thesis
    by blast
qed

lemma demo_net_init:
  "BreastNetPP_init demo_backbone unit_weight unit_weight unit_weight
     flat_weight zero_bias flat_weight zero_bias = Inr demo_net"
  by (simp add: BreastNetPP_init_def CBAM_init_def floordiv_def Conv2d_def demo_net_def)

theorem classification_head_witness:
  "BreastNetPP_init demo_backbone unit_weight unit_weight unit_weight
     flat_weight zero_bias flat_weight zero_bias = Inr demo_net
   \<and> demo_backbone () = Inr feature_1280 \<and> dimC feature_1280 = 1280
   \<and> 0 < dimN feature_1280 \<and> 0 < dimH feature_1280 \<and> 0 < dimW feature_1280
   \<and> (\<exists>y. BreastNetPP_forward demo_net False keep_all keep_all () = Inr y
        \<and> rows y = 1 \<and> cols y = 1 \<and> 0 \<le> mel y 0 0 \<and> mel y 0 0 \<le> 1)"
proof -
  have h: "demo_backbone () = Inr feature_1280" "dimC feature_1280 = 1280"
    "0 < dimN feature_1280" "0 < dimH feature_1280" "0 < dimW feature_1280"
    by (simp_all add: demo_backbone_def feature_1280_def)
  have n: "dimN feature_1280 = 1"
    by (simp add: feature_1280_def)
  from classification_head [OF demo_net_init h, of False keep_all keep_all]
  have "\<exists>y. BreastNetPP_forward demo_net False keep_all keep_all () = Inr y
        \<and> rows y = 1 \<and> cols y = 1 \<and> 0 \<le> mel y 0 0 \<and> mel y 0 0 \<le> 1"
    unfolding n by blast
  with demo_net_init h show ?thesis
    by blast
qed

end
